theory Spec2Isabelle
  imports Complex_Main
begin

section \<open>Python values and exceptions\<close>

text \<open>
  The exceptions the modelled code can raise. \<open>IndexError\<close> is raised both by the
  explicit \<^verbatim>\<open>raise IndexError(...)\<close> statements of \<^verbatim>\<open>Plugin2023.py\<close> and by
  Python's own list indexing; \<open>ZeroDivisionError\<close> by \<^verbatim>\<open>//\<close> and \<^verbatim>\<open>%\<close>;
  \<open>InvalidTeam\<close> stands for the \<^verbatim>\<open>Exception("Invalid : ...")\<close> of \<^verbatim>\<open>Team.__init__\<close>.
\<close>

datatype py_error = IndexError | ZeroDivisionError | InvalidTeam

text \<open>
  \<^verbatim>\<open>int(q)\<close> on a float truncates towards zero. The floats that occur
  (\<^verbatim>\<open>self.x / 2 - 1\<close>, \<^verbatim>\<open>(turn + 1) / 2\<close>) are halves of integers, which binary64
  represents exactly for every magnitude below \<open>2^53\<close>; they are modelled as exact
  rationals. From there on the code rounds, and beyond the range of a float it
  raises \<^verbatim>\<open>OverflowError\<close>; coordinates and turn numbers of that size are outside this
  model.
\<close>

definition py_int :: "rat \<Rightarrow> int" where
  "py_int q = (if q < 0 then \<lceil>q\<rceil> else \<lfloor>q\<rfloor>)"

text \<open>\<^verbatim>\<open>xs[i]\<close>: a negative index counts from the end, out of range raises.\<close>

definition py_getitem :: "'a list \<Rightarrow> int \<Rightarrow> py_error + 'a" where
  "py_getitem xs i =
     (if 0 \<le> i \<and> i < int (length xs) then Inr (xs ! nat i)
      else if i < 0 \<and> - int (length xs) \<le> i then Inr (xs ! nat (i + int (length xs)))
      else Inl IndexError)"

text \<open>\<^verbatim>\<open>range(n)\<close> and \<^verbatim>\<open>range(a, b)\<close>; both are empty when the bound is not above the start.\<close>

definition py_range :: "int \<Rightarrow> int list" where
  "py_range n = map int [0..<nat n]"

definition py_range2 :: "int \<Rightarrow> int \<Rightarrow> int list" where
  "py_range2 a b = map (\<lambda>k. a + int k) [0..<nat (b - a)]"

text \<open>
  A \<^verbatim>\<open>for\<close> loop whose body appends to a result list and may raise: the result is the
  concatenation of what each iteration appended, and the first exception ends the loop
  and is the result.
\<close>

fun forE :: "'a list \<Rightarrow> ('a \<Rightarrow> py_error + 'b list) \<Rightarrow> py_error + 'b list" where
  "forE [] body = Inr []"
| "forE (a # as) body =
     (case body a of
        Inl e \<Rightarrow> Inl e
      | Inr ys \<Rightarrow> (case forE as body of Inl e \<Rightarrow> Inl e | Inr zs \<Rightarrow> Inr (ys @ zs)))"

text \<open>A list comprehension \<^verbatim>\<open>[f(i) for i in xs]\<close> whose element expression may raise.\<close>

fun mapE :: "('a \<Rightarrow> py_error + 'b) \<Rightarrow> 'a list \<Rightarrow> py_error + 'b list" where
  "mapE f [] = Inr []"
| "mapE f (a # as) =
     (case f a of
        Inl e \<Rightarrow> Inl e
      | Inr v \<Rightarrow> (case mapE f as of Inl e \<Rightarrow> Inl e | Inr vs \<Rightarrow> Inr (v # vs)))"

text \<open>Truth value of a list in a boolean context: the empty list is falsy.\<close>

definition py_bool_list :: "'a list \<Rightarrow> bool" where
  "py_bool_list xs = (xs \<noteq> [])"

section \<open>Vector and Coordinates (Plugin2023.py)\<close>

record Vector =
  dx :: int
  dy :: int

text \<open>
  The attributes \<^verbatim>\<open>x\<close> and \<^verbatim>\<open>y\<close> of \<^verbatim>\<open>Coordinates\<close> are the fields \<open>x_coo\<close> and
  \<open>y_coo\<close>.
\<close>

record Coordinates =
  x_coo :: int
  y_coo :: int
  isDouble :: bool

definition timesV :: "Vector \<Rightarrow> int \<Rightarrow> Vector" where
  "timesV v scalar = \<lparr>dx = dx v * scalar, dy = dy v * scalar\<rparr>"

definition plusV :: "Vector \<Rightarrow> Vector \<Rightarrow> Vector" where
  "plusV v other = \<lparr>dx = dx v + dx other, dy = dy v + dy other\<rparr>"

definition minusV :: "Vector \<Rightarrow> Vector \<Rightarrow> Vector" where
  "minusV v other = \<lparr>dx = dx v - dx other, dy = dy v - dy other\<rparr>"

definition DIRECTIONS :: "Vector list" where
  "DIRECTIONS =
     [\<lparr>dx = 1, dy = -1\<rparr>, \<lparr>dx = -2, dy = 0\<rparr>, \<lparr>dx = 1, dy = 1\<rparr>,
      \<lparr>dx = -1, dy = 1\<rparr>, \<lparr>dx = 2, dy = 0\<rparr>, \<lparr>dx = -1, dy = -1\<rparr>]"

definition toCoordinates :: "Vector \<Rightarrow> Coordinates" where
  "toCoordinates v = \<lparr>x_coo = dx v, y_coo = dy v, isDouble = True\<rparr>"

definition getVector :: "Coordinates \<Rightarrow> Vector" where
  "getVector c = \<lparr>dx = x_coo c, dy = y_coo c\<rparr>"

definition arrayToDoubleHex :: "Coordinates \<Rightarrow> Coordinates" where
  "arrayToDoubleHex c =
     \<lparr>x_coo = x_coo c * 2 + (if y_coo c mod 2 = 1 then 1 else 0), y_coo = y_coo c,
      isDouble = True\<rparr>"

definition doubleHexToArray :: "Coordinates \<Rightarrow> Coordinates" where
  "doubleHexToArray c =
     \<lparr>x_coo = py_int (of_int (x_coo c) / 2 - (if y_coo c mod 2 = 1 then 1 else 0)),
      y_coo = y_coo c, isDouble = False\<rparr>"

definition getArray :: "Coordinates \<Rightarrow> Coordinates" where
  "getArray c = (if \<not> isDouble c then c else doubleHexToArray c)"

definition getDoubleHex :: "Coordinates \<Rightarrow> Coordinates" where
  "getDoubleHex c = (if isDouble c then c else arrayToDoubleHex c)"

definition addVector :: "Coordinates \<Rightarrow> Vector \<Rightarrow> Coordinates" where
  "addVector c v =
     (if isDouble c then toCoordinates (plusV (getVector c) v)
      else getArray (toCoordinates (plusV (getVector (getDoubleHex c)) v)))"

definition minusVector :: "Coordinates \<Rightarrow> Vector \<Rightarrow> Coordinates" where
  "minusVector c v = toCoordinates (minusV (getVector c) v)"

section \<open>Move, Team and Field\<close>

text \<open>
  \<^verbatim>\<open>Move.__init__\<close> hands \<^verbatim>\<open>fieldValues=[fromCoo, toCoo]\<close> to the serialisation wrapper
  \<^verbatim>\<open>ChildAttribute\<close>, which only stores them; the properties \<^verbatim>\<open>fromCoo\<close> and \<^verbatim>\<open>toCoo\<close>
  read them back. An absent origin (\<^verbatim>\<open>None\<close>) is \<open>None\<close>.
\<close>

record Move =
  toCoo :: Coordinates
  fromCoo :: "Coordinates option"

definition Move_init :: "Coordinates \<Rightarrow> Coordinates option \<Rightarrow> Move" where
  "Move_init to_c from_c = \<lparr>toCoo = to_c, fromCoo = from_c\<rparr>"

text \<open>A \<^verbatim>\<open>Team\<close> object is determined by the \<^verbatim>\<open>teamEnum\<close> it selected.\<close>

datatype Team = ONE | TWO

definition Team_init :: "string \<Rightarrow> py_error + Team" where
  "Team_init color =
     (if color = ''ONE'' then Inr ONE
      else if color = ''TWO'' then Inr TWO
      else Inl InvalidTeam)"

definition team_name :: "Team \<Rightarrow> string" where
  "team_name t = (case t of ONE \<Rightarrow> ''ONE'' | TWO \<Rightarrow> ''TWO'')"

definition opponent_name :: "Team \<Rightarrow> string" where
  "opponent_name t = (case t of ONE \<Rightarrow> ''TWO'' | TWO \<Rightarrow> ''ONE'')"

text \<open>
  \<^verbatim>\<open>opponent\<close> is \<^verbatim>\<open>Team(self.teamEnum['opponent'])\<close>; the constructor cannot raise on
  these two names (lemma \<open>Team_init_opponent\<close> below).
\<close>

definition opponent :: "Team \<Rightarrow> Team" where
  "opponent t = (case t of ONE \<Rightarrow> TWO | TWO \<Rightarrow> ONE)"

text \<open>\<^verbatim>\<open>Team.__eq__\<close>: both are teams and the names agree.\<close>

definition Team_eq :: "Team \<Rightarrow> Team \<Rightarrow> bool" where
  "Team_eq a b = (team_name a = team_name b)"

text \<open>
  The attribute \<^verbatim>\<open>Field.field\<close> holds \<^verbatim>\<open>None\<close>, an integer fish count or a \<^verbatim>\<open>Team\<close>.
  \<^verbatim>\<open>Field\<close> defines neither \<^verbatim>\<open>__eq__\<close> nor \<^verbatim>\<open>__ne__\<close>, so \<^verbatim>\<open>!=\<close> on two fields
  compares object identity; \<open>ident\<close> is the identity of the object.
\<close>

datatype field_value = FNone | FInt int | FTeam Team

record Field =
  ident :: nat
  field :: field_value

definition Field_ne :: "Field \<Rightarrow> Field \<Rightarrow> bool" where
  "Field_ne f g = (ident f \<noteq> ident g)"

definition isEmpty :: "Field \<Rightarrow> bool" where
  "isEmpty f = (field f = FInt 0)"

definition isOccupied :: "Field \<Rightarrow> bool" where
  "isOccupied f = (case field f of FTeam t \<Rightarrow> True | _ \<Rightarrow> False)"

definition getFish :: "Field \<Rightarrow> field_value" where
  "getFish f = (if isOccupied f then FNone else field f)"

definition getPenguin :: "Field \<Rightarrow> Team option" where
  "getPenguin f = (case field f of FTeam t \<Rightarrow> Some t | _ \<Rightarrow> None)"

section \<open>HexBoard\<close>

record HexBoard =
  gameField :: "Field list list"

definition width :: "HexBoard \<Rightarrow> int" where
  "width b = int (length (gameField b))"

text \<open>\<^verbatim>\<open>len(self.gameField[0])\<close> raises on a board without rows.\<close>

definition height :: "HexBoard \<Rightarrow> py_error + int" where
  "height b =
     (case py_getitem (gameField b) 0 of Inl e \<Rightarrow> Inl e | Inr row \<Rightarrow> Inr (int (length row)))"

text \<open>
  \<^verbatim>\<open>and\<close> evaluates \<^verbatim>\<open>len(self.gameField[0])\<close> only after
  \<^verbatim>\<open>0 <= x < len(self.gameField)\<close> held, so \<^verbatim>\<open>isValid\<close> never raises: on a board
  without rows the first comparison is already false.
\<close>

definition isValid :: "HexBoard \<Rightarrow> Coordinates \<Rightarrow> bool" where
  "isValid b coordinates =
     (let arrayCoordinates = getArray coordinates
      in 0 \<le> x_coo arrayCoordinates \<and> x_coo arrayCoordinates < int (length (gameField b)) \<and>
         (case gameField b of
            [] \<Rightarrow> False
          | row0 # rest \<Rightarrow>
              0 \<le> y_coo arrayCoordinates \<and> y_coo arrayCoordinates < int (length row0)))"

text \<open>The private \<^verbatim>\<open>__getField(x, y)\<close>: \<^verbatim>\<open>self.gameField[x][y]\<close>.\<close>

definition getField_xy :: "HexBoard \<Rightarrow> int \<Rightarrow> int \<Rightarrow> py_error + Field" where
  "getField_xy b x y =
     (case py_getitem (gameField b) x of Inl e \<Rightarrow> Inl e | Inr row \<Rightarrow> py_getitem row y)"

definition getField :: "HexBoard \<Rightarrow> Coordinates \<Rightarrow> py_error + Field" where
  "getField b position =
     (let arrayCoordinates = getArray position
      in if isValid b arrayCoordinates
         then getField_xy b (x_coo arrayCoordinates) (y_coo arrayCoordinates)
         else Inl IndexError)"

definition getFieldOrNone :: "HexBoard \<Rightarrow> Coordinates \<Rightarrow> py_error + Field option" where
  "getFieldOrNone b position =
     (let position' = getArray position
      in if isValid b position'
         then (case getField_xy b (x_coo position') (y_coo position') of
                 Inl e \<Rightarrow> Inl e
               | Inr f \<Rightarrow> Inr (Some f))
         else Inr None)"

definition HexBoard_isOccupied :: "HexBoard \<Rightarrow> Coordinates \<Rightarrow> py_error + bool" where
  "HexBoard_isOccupied b coordinates =
     (case getField b (getArray coordinates) of Inl e \<Rightarrow> Inl e | Inr f \<Rightarrow> Inr (isOccupied f))"

definition getFieldByIndex :: "HexBoard \<Rightarrow> int \<Rightarrow> py_error + Field" where
  "getFieldByIndex b index =
     (if width b = 0 then Inl ZeroDivisionError
      else getField b \<lparr>x_coo = index div width b, y_coo = index mod width b, isDouble = False\<rparr>)"

definition getAllFields :: "HexBoard \<Rightarrow> py_error + Field list" where
  "getAllFields b =
     (case height b of
        Inl e \<Rightarrow> Inl e
      | Inr h \<Rightarrow> mapE (getFieldByIndex b) (py_range (width b * h)))"

definition compareTo :: "HexBoard \<Rightarrow> HexBoard \<Rightarrow> py_error + Field list" where
  "compareTo b other =
     forE (py_range (int (length (gameField b))))
       (\<lambda>x. case height b of
               Inl e \<Rightarrow> Inl e
             | Inr h \<Rightarrow>
                 forE (py_range h)
                   (\<lambda>y. case getField_xy b x y of
                           Inl e \<Rightarrow> Inl e
                         | Inr f \<Rightarrow>
                             (case getField_xy other x y of
                                Inl e \<Rightarrow> Inl e
                              | Inr g \<Rightarrow> Inr (if Field_ne f g then [f] else []))))"

text \<open>\<^verbatim>\<open>HexBoard.__eq__\<close> returns what \<^verbatim>\<open>compareTo\<close> returns: a list, not a boolean.\<close>

definition HexBoard_eq :: "HexBoard \<Rightarrow> HexBoard \<Rightarrow> py_error + Field list" where
  "HexBoard_eq b other = compareTo b other"

section \<open>Board\<close>

record Board =
  hexFields :: HexBoard

text \<open>
  The loop of \<^verbatim>\<open>getMovesInDirection\<close> over \<^verbatim>\<open>range(1, width)\<close>. The body of its
  \<^verbatim>\<open>try\<close> builds a \<^verbatim>\<open>Move\<close> from \<^verbatim>\<open>addVector\<close> and \<^verbatim>\<open>times\<close>, none of which looks at the
  board or raises; the handler \<^verbatim>\<open>except IndexError: break\<close> is kept as the branch it is.
\<close>

definition move_attempt :: "Coordinates \<Rightarrow> Vector \<Rightarrow> int \<Rightarrow> py_error + Move" where
  "move_attempt origin direction i =
     Inr (Move_init (addVector (getDoubleHex origin) (timesV direction i)) (Some origin))"

fun moves_loop :: "Coordinates \<Rightarrow> Vector \<Rightarrow> int list \<Rightarrow> py_error + Move list" where
  "moves_loop origin direction [] = Inr []"
| "moves_loop origin direction (i # rest) =
     (case move_attempt origin direction i of
        Inl IndexError \<Rightarrow> Inr []
      | Inl e \<Rightarrow> Inl e
      | Inr m \<Rightarrow>
          (case moves_loop origin direction rest of
             Inl e \<Rightarrow> Inl e
           | Inr ms \<Rightarrow> Inr (m # ms)))"

definition getMovesInDirection :: "Board \<Rightarrow> Coordinates \<Rightarrow> Vector \<Rightarrow> py_error + Move list" where
  "getMovesInDirection b origin direction =
     moves_loop origin direction (py_range2 1 (width (hexFields b)))"

definition possibleMovesFrom :: "Board \<Rightarrow> Coordinates \<Rightarrow> py_error + Move list" where
  "possibleMovesFrom b position =
     (if \<not> isValid (hexFields b) position then Inl IndexError
      else forE DIRECTIONS (\<lambda>direction. getMovesInDirection b position direction))"

definition getPenguins :: "Board \<Rightarrow> py_error + Field list" where
  "getPenguins b =
     (case getAllFields (hexFields b) of
        Inl e \<Rightarrow> Inl e
      | Inr fs \<Rightarrow> Inr (filter isOccupied fs))"

definition getTeamsPenguins :: "Board \<Rightarrow> Team \<Rightarrow> py_error + Coordinates list" where
  "getTeamsPenguins b team =
     forE (py_range (width (hexFields b)))
       (\<lambda>x. case height (hexFields b) of
               Inl e \<Rightarrow> Inl e
             | Inr h \<Rightarrow>
                 forE (py_range h)
                   (\<lambda>y. case getField (hexFields b) \<lparr>x_coo = x, y_coo = y, isDouble = False\<rparr> of
                           Inl e \<Rightarrow> Inl e
                         | Inr currentField \<Rightarrow>
                             Inr (if isOccupied currentField \<and>
                                     (case getPenguin currentField of
                                        None \<Rightarrow> False
                                      | Some t \<Rightarrow> Team_eq t team)
                                  then [getDoubleHex \<lparr>x_coo = x, y_coo = y, isDouble = False\<rparr>]
                                  else [])))"

section \<open>GameState\<close>

record Fishes =
  fishesOne :: int
  fishesTwo :: int

text \<open>
  The attribute \<^verbatim>\<open>round\<close> is the field \<open>round_no\<close>. All attributes but \<^verbatim>\<open>startTeam\<close>,
  \<^verbatim>\<open>board\<close> and \<^verbatim>\<open>turn\<close> are computed by \<^verbatim>\<open>__init__\<close>.
\<close>

record GameState =
  startTeam :: Team
  board :: Board
  turn :: int
  round_no :: int
  currentTeam :: Team
  otherTeam :: Team
  lastMove :: "Move option"
  fishes :: Fishes
  currentPieces :: "Coordinates list"

text \<open>
  \<^verbatim>\<open>currentTeamFromTurn\<close> reads \<^verbatim>\<open>self.startTeam\<close> and \<^verbatim>\<open>self.turn\<close> only;
  \<^verbatim>\<open>__init__\<close> calls it before the other attributes exist, so the computation takes
  the two attributes and the method is its instance on a state.
\<close>

definition currentTeamFromTurn_of :: "Team \<Rightarrow> int \<Rightarrow> Team" where
  "currentTeamFromTurn_of start_team turn_no =
     (if turn_no mod 2 = 0 then start_team else opponent start_team)"

definition currentTeamFromTurn :: "GameState \<Rightarrow> Team" where
  "currentTeamFromTurn gs = currentTeamFromTurn_of (startTeam gs) (turn gs)"

definition GameState_init ::
  "Board \<Rightarrow> int \<Rightarrow> Team \<Rightarrow> Fishes \<Rightarrow> Move option \<Rightarrow> py_error + GameState" where
  "GameState_init board0 turn0 startTeam0 fishes0 lastMove0 =
     (case getTeamsPenguins board0 (currentTeamFromTurn_of startTeam0 turn0) of
        Inl e \<Rightarrow> Inl e
      | Inr pieces \<Rightarrow>
          Inr \<lparr>startTeam = startTeam0, board = board0, turn = turn0,
               round_no = py_int (of_int (turn0 + 1) / 2),
               currentTeam = currentTeamFromTurn_of startTeam0 turn0,
               otherTeam = opponent (currentTeamFromTurn_of startTeam0 turn0),
               lastMove = lastMove0, fishes = fishes0, currentPieces = pieces\<rparr>)"

definition getPossibleMoves :: "GameState \<Rightarrow> py_error + Move list" where
  "getPossibleMoves gs =
     (if int (length (currentPieces gs)) < 4
      then forE (py_range (width (hexFields (board gs)) - 1))
             (\<lambda>x. case height (hexFields (board gs)) of
                     Inl e \<Rightarrow> Inl e
                   | Inr h \<Rightarrow>
                       forE (py_range (h - 1))
                         (\<lambda>y. case getField (hexFields (board gs))
                                      \<lparr>x_coo = x, y_coo = y, isDouble = False\<rparr> of
                                 Inl e \<Rightarrow> Inl e
                               | Inr f \<Rightarrow>
                                   Inr (if \<not> isOccupied f \<and> getFish f = FInt 1
                                        then [Move_init
                                                (getDoubleHex
                                                   \<lparr>x_coo = x, y_coo = y, isDouble = False\<rparr>)
                                                None]
                                        else [])))
      else forE (currentPieces gs) (\<lambda>piece. possibleMovesFrom (board gs) piece))"

section \<open>GameClient (socha/api/networking/game client)\<close>

text \<open>
  The client is single-threaded; its state is passed explicitly. Everything the client
  does to the outside (log lines, handler callbacks, transport calls, \<^verbatim>\<open>time.sleep\<close>,
  packets handed to \<^verbatim>\<open>_send\<close>, \<^verbatim>\<open>history.append([])\<close>) is appended to \<open>trace\<close> in
  program order. Handler callbacks are taken to return without touching the client.
\<close>

datatype packet_out = Join | JoinRoom string | JoinPrepared string

datatype event =
    Log_info
  | Log_error
  | Log_exception
  | Handler_on_error string
  | Handler_on_game_joined string
  | Handler_on_game_left
  | Handler_on_room_message string
  | Handler_while_disconnected
  | Call_on_move_request string
  | Call_on_state string
  | Call_on_result string
  | Net_connect
  | Net_disconnect
  | Sleep int
  | Sent packet_out
  | History_new_slot

text \<open>
  \<open>reservation\<close> and \<open>room_id\<close> are tested for truth by \<^verbatim>\<open>join\<close>; the empty string
  stands for every falsy value (\<^verbatim>\<open>None\<close>, \<^verbatim>\<open>""\<close>). \<open>connected\<close> is
  \<^verbatim>\<open>self.network_interface.connected\<close>.
\<close>

record GameClient =
  reservation :: string
  room_id :: string
  auto_reconnect :: bool
  survive :: bool
  running :: bool
  connected :: bool
  first_time :: bool
  trace :: "event list"

definition emit :: "event list \<Rightarrow> GameClient \<Rightarrow> GameClient" where
  "emit evs c = c\<lparr>trace := trace c @ evs\<rparr>"

text \<open>
  Modelled from the spec: \<^verbatim>\<open>XMLProtocolInterface.disconnect\<close> is not among the files;
  it closes the transport, after which the interface is not connected.
\<close>

definition disconnect :: "GameClient \<Rightarrow> GameClient" where
  "disconnect c = (emit [Net_disconnect] c)\<lparr>connected := False\<rparr>"

text \<open>
  \<^verbatim>\<open>XMLProtocolInterface.connect\<close> is not among the files either. What one call does is
  a parameter: it returns with the interface connected, returns with it still
  unconnected, or raises.
\<close>

datatype connect_outcome = Connects | StaysDown | Raises

definition connect :: "connect_outcome \<Rightarrow> GameClient \<Rightarrow> GameClient + GameClient" where
  "connect outcome c =
     (case outcome of
        Connects \<Rightarrow> Inr ((emit [Net_connect] c)\<lparr>connected := True\<rparr>)
      | StaysDown \<Rightarrow> Inr (emit [Net_connect] c)
      | Raises \<Rightarrow> Inl (emit [Net_connect] c))"

definition stop :: "GameClient \<Rightarrow> GameClient" where
  "stop c =
     (let c1 = emit [Log_info] c;
          c2 = (if connected c1 then disconnect c1 else c1)
      in c2\<lparr>running := False\<rparr>)"

definition join :: "GameClient \<Rightarrow> GameClient" where
  "join c =
     (let c1 = (if reservation c \<noteq> [] then emit [Sent (JoinPrepared (reservation c))] c
                else if room_id c \<noteq> [] then emit [Sent (JoinRoom (room_id c))] c
                else emit [Sent Join] c)
      in emit [History_new_slot] (c1\<lparr>first_time := False\<rparr>))"

text \<open>
  The inbound packets \<^verbatim>\<open>_on_object\<close> tells apart. \<open>Errorpacket s\<close> carries
  \<^verbatim>\<open>str(message)\<close>, which is what \<^verbatim>\<open>on_error\<close> receives. The bodies of
  \<^verbatim>\<open>_on_move_request\<close>, \<^verbatim>\<open>_on_state\<close> and of the result branch use code outside the
  files; those branches are recorded as the call they make.
\<close>

datatype room_data = MoveRequest | State | Result | OtherData string

datatype message =
    Errorpacket string
  | Joined string
  | Left string
  | Room string room_data

definition on_object :: "GameClient \<Rightarrow> message \<Rightarrow> GameClient" where
  "on_object c msg =
     (case msg of
        Errorpacket s \<Rightarrow> stop (emit [Log_error, Handler_on_error s] c)
      | Joined room \<Rightarrow> emit [Handler_on_game_joined room] c
      | Left room \<Rightarrow> emit [Handler_on_game_left] c
      | Room room MoveRequest \<Rightarrow> emit [Call_on_move_request room] c
      | Room room State \<Rightarrow> emit [Call_on_state room] c
      | Room room Result \<Rightarrow> emit [Call_on_result room] c
      | Room room (OtherData d) \<Rightarrow> emit [Handler_on_room_message d] c)"

text \<open>
  The \<^verbatim>\<open>for _ in range(3)\<close> loop of \<^verbatim>\<open>_handle_left\<close>. \<open>env i\<close> is what the call of
  \<^verbatim>\<open>connect\<close> in iteration \<open>i\<close> does. \<^verbatim>\<open>break\<close> leaves the loop without the
  \<^verbatim>\<open>time.sleep(1)\<close>; the \<^verbatim>\<open>except\<close> branch has no \<^verbatim>\<open>break\<close> and falls through to it.
\<close>

fun reconnect_loop :: "(int \<Rightarrow> connect_outcome) \<Rightarrow> int list \<Rightarrow> GameClient \<Rightarrow> GameClient" where
  "reconnect_loop env [] c = c"
| "reconnect_loop env (i # rest) c =
     (case connect (env i) (emit [Log_info] c) of
        Inr c1 \<Rightarrow>
          (if connected c1 then emit [Log_info] c1
           else reconnect_loop env rest (emit [Sleep 1] c1))
      | Inl c1 \<Rightarrow>
          reconnect_loop env rest (emit [Sleep 1] (stop (emit [Log_exception, Log_info] c1))))"

definition handle_left :: "(int \<Rightarrow> connect_outcome) \<Rightarrow> GameClient \<Rightarrow> GameClient" where
  "handle_left env c =
     (let c1 = disconnect (c\<lparr>first_time := True\<rparr>);
          c2 = (if survive c1 then emit [Log_info, Handler_while_disconnected] c1 else c1)
      in if auto_reconnect c2
         then join (reconnect_loop env (py_range 3) (emit [Log_info] c2))
         else stop (emit [Log_info] c2))"

text \<open>
  A board of \<open>W\<close> rows (\<^verbatim>\<open>width()\<close>), each of \<open>H\<close> cells (\<^verbatim>\<open>height()\<close>): the
  rectangular grid the board is meant to be.
\<close>

definition has_dims :: "HexBoard \<Rightarrow> nat \<Rightarrow> nat \<Rightarrow> bool" where
  "has_dims b W H =
     (length (gameField b) = W \<and> list_all (\<lambda>row. length row = H) (gameField b))"

section \<open>Loops, ranges and rectangular boards\<close>

lemma forE_all_Inr:
  "(\<And>a. a \<in> set xs \<Longrightarrow> body a = Inr (g a)) \<Longrightarrow> forE xs body = Inr (concat (map g xs))"
  by (induction xs) simp_all

lemma forE_InrD:
  "forE xs body = Inr ys \<Longrightarrow> a \<in> set xs \<Longrightarrow> \<exists>zs. body a = Inr zs"
  by (induction xs arbitrary: ys) (auto split: sum.splits)

lemma forE_Inr_concat:
  "forE xs body = Inr ys \<Longrightarrow> ys = concat (map (\<lambda>a. projr (body a)) xs)"
  by (induction xs arbitrary: ys) (auto split: sum.splits)

lemma mapE_all_Inr:
  "(\<And>a. a \<in> set xs \<Longrightarrow> f a = Inr (g a)) \<Longrightarrow> mapE f xs = Inr (map g xs)"
  by (induction xs) simp_all

lemma mapE_raises:
  assumes "a \<in> set xs" and "f a = Inl err"
      and "\<And>z e. z \<in> set xs \<Longrightarrow> f z = Inl e \<Longrightarrow> e = err"
  shows "mapE f xs = Inl err"
  using assms
proof (induction xs)
  case Nil
  then show ?case by simp
next
  case (Cons b bs)
  show ?case
  proof (cases "f b")
    case (Inl e)
    have "b \<in> set (b # bs)" by simp
    then have "e = err" using Inl by (rule Cons.prems(3))
    with Inl show ?thesis by simp
  next
    case (Inr v)
    have "a \<noteq> b" using Inr Cons.prems(2) by auto
    with Cons.prems(1) have in_bs: "a \<in> set bs" by simp
    have "mapE f bs = Inl err"
    proof (rule Cons.IH[OF in_bs Cons.prems(2)])
      fix z e
      assume "z \<in> set bs" and fz: "f z = Inl e"
      then have "z \<in> set (b # bs)" by simp
      then show "e = err" using fz by (rule Cons.prems(3))
    qed
    with Inr show ?thesis by simp
  qed
qed

lemma set_py_range: "a \<in> set (py_range n) \<longleftrightarrow> 0 \<le> a \<and> a < n"
proof
  assume "a \<in> set (py_range n)"
  then show "0 \<le> a \<and> a < n" by (auto simp: py_range_def)
next
  assume h: "0 \<le> a \<and> a < n"
  then have "nat a \<in> {0..<nat n}" by simp
  then have "int (nat a) \<in> int ` {0..<nat n}" by (rule imageI)
  with h show "a \<in> set (py_range n)" by (simp add: py_range_def)
qed

lemma py_getitem_in_range:
  "0 \<le> i \<Longrightarrow> i < int (length xs) \<Longrightarrow> py_getitem xs i = Inr (xs ! nat i)"
  by (simp add: py_getitem_def)

lemma has_dims_row: "has_dims b W H \<Longrightarrow> i < W \<Longrightarrow> length (gameField b ! i) = H"
  by (simp add: has_dims_def list_all_length)

lemma has_dims_width: "has_dims b W H \<Longrightarrow> width b = int W"
  by (simp add: width_def has_dims_def)

lemma getArray_idem: "getArray (getArray c) = getArray c"
  by (simp add: getArray_def doubleHexToArray_def)

lemma has_dims_isValid:
  assumes "has_dims b W H"
  shows "isValid b c \<longleftrightarrow>
           0 \<le> x_coo (getArray c) \<and> x_coo (getArray c) < int W \<and>
           0 \<le> y_coo (getArray c) \<and> y_coo (getArray c) < int H"
proof (cases "gameField b")
  case Nil
  with assms show ?thesis by (simp add: isValid_def has_dims_def)
next
  case (Cons row0 rest)
  with assms have "length row0 = H" "length (gameField b) = W"
    by (simp_all add: has_dims_def)
  with Cons show ?thesis by (auto simp: isValid_def Let_def)
qed

lemma has_dims_getField_xy:
  assumes "has_dims b W H" "0 \<le> x" "x < int W" "0 \<le> y" "y < int H"
  shows "getField_xy b x y = Inr (gameField b ! nat x ! nat y)"
proof -
  from assms have "length (gameField b) = W" by (simp add: has_dims_def)
  moreover from assms have "length (gameField b ! nat x) = H"
    by (intro has_dims_row[of b W H]) auto
  ultimately show ?thesis using assms
    by (simp add: getField_xy_def py_getitem_in_range)
qed

lemma forE_py_range:
  assumes "\<And>k. k < n \<Longrightarrow> body (int k) = Inr (g k)"
  shows "forE (py_range (int n)) body = Inr (concat (map g [0..<n]))"
proof -
  have "forE (py_range (int n)) body = Inr (concat (map (\<lambda>a. g (nat a)) (py_range (int n))))"
  proof (rule forE_all_Inr)
    fix a assume "a \<in> set (py_range (int n))"
    then have "0 \<le> a" "nat a < n" by (auto simp: set_py_range)
    with assms[of "nat a"] show "body a = Inr (g (nat a))" by simp
  qed
  then show ?thesis by (simp add: py_range_def comp_def)
qed

lemma mapE_py_range:
  assumes "\<And>k. k < n \<Longrightarrow> f (int k) = Inr (g k)"
  shows "mapE f (py_range (int n)) = Inr (map g [0..<n])"
proof -
  have "mapE f (py_range (int n)) = Inr (map (\<lambda>a. g (nat a)) (py_range (int n)))"
  proof (rule mapE_all_Inr)
    fix a assume "a \<in> set (py_range (int n))"
    then have "0 \<le> a" "nat a < n" by (auto simp: set_py_range)
    with assms[of "nat a"] show "f a = Inr (g (nat a))" by simp
  qed
  then show ?thesis by (simp add: py_range_def comp_def)
qed

lemma has_dims_height:
  assumes "has_dims b W H" "0 < W"
  shows "height b = Inr (int H)"
proof (cases "gameField b")
  case Nil
  with assms show ?thesis by (simp add: has_dims_def)
next
  case (Cons row0 rest)
  with assms(1) have "length row0 = H" by (simp add: has_dims_def)
  with Cons show ?thesis by (simp add: height_def py_getitem_def)
qed

lemma has_dims_height_empty: "has_dims b 0 H \<Longrightarrow> height b = Inl IndexError"
  by (simp add: height_def py_getitem_def has_dims_def)

lemma isValid_getArray: "isValid b (getArray c) = isValid b c"
  by (simp add: isValid_def getArray_idem)

section \<open>The conversions between array and double-hex coordinates\<close>

lemma floor_half: "\<lfloor>rat_of_int a / 2\<rfloor> = a div 2"
  using floor_divide_of_int_eq[of a 2, where ?'a = rat] by simp

lemma py_int_half: "py_int (of_int a / 2) = (if a < 0 then - ((- a) div 2) else a div 2)"
proof -
  have "\<lceil>rat_of_int a / 2\<rceil> = - ((- a) div 2)"
    using floor_half[of "- a"] by (simp add: ceiling_def)
  then show ?thesis by (simp add: py_int_def floor_half)
qed

lemma py_int_half_minus_one: "py_int (of_int a / 2 - 1) = py_int (of_int (a - 2) / 2)"
  by (simp add: diff_divide_distrib)

lemma doubleHexToArray_x:
  "x_coo (doubleHexToArray c) =
     (if y_coo c mod 2 = 1
      then (if x_coo c < 2 then - ((2 - x_coo c) div 2) else (x_coo c - 2) div 2)
      else (if x_coo c < 0 then - ((- x_coo c) div 2) else x_coo c div 2))"
proof (cases "y_coo c mod 2 = 1")
  case True
  then show ?thesis
    by (simp add: doubleHexToArray_def py_int_half_minus_one py_int_half del: of_int_diff)
next
  case False
  then show ?thesis
    by (simp add: doubleHexToArray_def py_int_half)
qed

text \<open>
  What the round trip really computes: on an odd row every array column from 1 on comes
  back one column to the left.
\<close>

lemma roundtrip_x:
  "x_coo (doubleHexToArray (arrayToDoubleHex c)) =
     (if y_coo c mod 2 = 1 \<and> 1 \<le> x_coo c then x_coo c - 1 else x_coo c)"
  by (auto simp: doubleHexToArray_x arrayToDoubleHex_def)

lemma roundtrip_even_row:
  "y_coo c mod 2 \<noteq> 1 \<Longrightarrow> \<not> isDouble c \<Longrightarrow> doubleHexToArray (arrayToDoubleHex c) = c"
  by (rule Coordinates.equality)
     (simp_all add: roundtrip_x, simp_all add: doubleHexToArray_def arrayToDoubleHex_def)

text \<open>
  C1. The claim: converting a valid array coordinate to double-hex and back yields it
  again, and likewise from double-hex. The code does not: \<^verbatim>\<open>doubleHexToArray\<close> subtracts
  the row offset \<open>1\<close> after halving instead of before. The array coordinate \<open>(1, 1)\<close>
  becomes double-hex \<open>(3, 1)\<close> and comes back as \<open>(0, 1)\<close>; the double-hex coordinate
  \<open>(3, 1)\<close> becomes array \<open>(0, 1)\<close> and comes back as \<open>(1, 1)\<close>.
\<close>

theorem C1_roundtrip_lost_on_odd_row:
  "arrayToDoubleHex \<lparr>x_coo = 1, y_coo = 1, isDouble = False\<rparr>
     = \<lparr>x_coo = 3, y_coo = 1, isDouble = True\<rparr> \<and>
   doubleHexToArray (arrayToDoubleHex \<lparr>x_coo = 1, y_coo = 1, isDouble = False\<rparr>)
     = \<lparr>x_coo = 0, y_coo = 1, isDouble = False\<rparr> \<and>
   arrayToDoubleHex (doubleHexToArray \<lparr>x_coo = 3, y_coo = 1, isDouble = True\<rparr>)
     = \<lparr>x_coo = 1, y_coo = 1, isDouble = True\<rparr>"
  by code_simp

section \<open>Vector arithmetic on coordinates\<close>

lemma addVector_keeps_tag: "isDouble (addVector c v) = isDouble c"
  by (simp add: addVector_def toCoordinates_def getArray_def doubleHexToArray_def)

text \<open>
  C4. The claim: \<^verbatim>\<open>addVector\<close> and \<^verbatim>\<open>minusVector\<close> both compute in double-hex space and
  hand back the receiver's representation. \<^verbatim>\<open>addVector\<close> converts an array receiver
  and converts back; \<^verbatim>\<open>minusVector\<close> does neither: on the array coordinate \<open>(1, 0)\<close>
  and the zero vector it returns \<open>(1, 0)\<close> tagged double-hex. \<^verbatim>\<open>addVector\<close> keeps the
  tag, but goes through \<^verbatim>\<open>doubleHexToArray\<close>: adding the zero vector to the array
  coordinate \<open>(1, 1)\<close> gives \<open>(0, 1)\<close>.
\<close>

theorem C4_minusVector_no_conversion:
  "minusVector \<lparr>x_coo = 1, y_coo = 0, isDouble = False\<rparr> \<lparr>dx = 0, dy = 0\<rparr>
     = \<lparr>x_coo = 1, y_coo = 0, isDouble = True\<rparr> \<and>
   addVector \<lparr>x_coo = 1, y_coo = 1, isDouble = False\<rparr> \<lparr>dx = 0, dy = 0\<rparr>
     = \<lparr>x_coo = 0, y_coo = 1, isDouble = False\<rparr>"
  by code_simp

section \<open>Turn parity\<close>

lemma Team_init_opponent: "Team_init (opponent_name t) = Inr (opponent t)"
  by (cases t) (simp_all add: Team_init_def opponent_name_def opponent_def)

lemma opponent_differs: "opponent t \<noteq> t"
  by (cases t) (simp_all add: opponent_def)

lemma opponent_involution: "opponent (opponent t) = t"
  by (cases t) (simp_all add: opponent_def)

lemma currentTeamFromTurn_of_next:
  "currentTeamFromTurn_of st (t + 1) = opponent (currentTeamFromTurn_of st t)"
proof (cases "t mod 2 = 0")
  case True
  then have "(t + 1) mod 2 \<noteq> 0" by presburger
  with True show ?thesis by (simp add: currentTeamFromTurn_of_def)
next
  case False
  then have "(t + 1) mod 2 = 0" by presburger
  with False show ?thesis by (simp add: currentTeamFromTurn_of_def opponent_involution)
qed

lemma GameState_init_fields:
  assumes "GameState_init b t st fi lm = Inr gs"
  shows "startTeam gs = st" "turn gs = t"
    "currentTeam gs = currentTeamFromTurn_of st t"
    "otherTeam gs = opponent (currentTeamFromTurn_of st t)"
    "board gs = b"
    "getTeamsPenguins b (currentTeamFromTurn_of st t) = Inr (currentPieces gs)"
  using assms by (auto simp: GameState_init_def split: sum.splits)

text \<open>
  C7. For every game state built by \<^verbatim>\<open>GameState.__init__\<close>: \<^verbatim>\<open>currentTeam\<close> is the
  start team on an even turn number and its opponent on an odd one (it is what
  \<^verbatim>\<open>currentTeamFromTurn\<close> returns on the state), \<^verbatim>\<open>otherTeam\<close> is the opponent of
  \<^verbatim>\<open>currentTeam\<close>, and the state of the next turn number with the same start team has
  the opposite, hence a different, \<^verbatim>\<open>currentTeam\<close>.
\<close>

theorem C7_turn_parity:
  assumes "GameState_init b t st fi lm = Inr gs"
      and "GameState_init b' (t + 1) st fi' lm' = Inr gs'"
  shows "currentTeam gs = (if t mod 2 = 0 then st else opponent st) \<and>
         currentTeamFromTurn gs = currentTeam gs \<and>
         otherTeam gs = opponent (currentTeam gs) \<and>
         currentTeam gs' = opponent (currentTeam gs) \<and>
         currentTeam gs' \<noteq> currentTeam gs \<and>
         otherTeam gs' = currentTeam gs"
proof -
  note f = GameState_init_fields[OF assms(1)]
  note f' = GameState_init_fields[OF assms(2)]
  have "currentTeam gs = (if t mod 2 = 0 then st else opponent st)"
    by (simp add: f(3) currentTeamFromTurn_of_def)
  moreover have "currentTeamFromTurn gs = currentTeam gs"
    by (simp add: currentTeamFromTurn_def f)
  moreover have "otherTeam gs = opponent (currentTeam gs)"
    by (simp add: f)
  moreover have n: "currentTeam gs' = opponent (currentTeam gs)"
    by (simp add: f f' currentTeamFromTurn_of_next)
  moreover have "currentTeam gs' \<noteq> currentTeam gs"
    by (simp add: n opponent_differs)
  moreover have "otherTeam gs' = currentTeam gs"
    by (simp add: f f' currentTeamFromTurn_of_next opponent_involution)
  ultimately show ?thesis by blast
qed

theorem C7_turn_parity_witness:
  "GameState_init \<lparr>hexFields = \<lparr>gameField = [[\<lparr>ident = 0, field = FTeam ONE\<rparr>]]\<rparr>\<rparr> 4 ONE
       \<lparr>fishesOne = 0, fishesTwo = 0\<rparr> None
     = Inr \<lparr>startTeam = ONE,
            board = \<lparr>hexFields = \<lparr>gameField = [[\<lparr>ident = 0, field = FTeam ONE\<rparr>]]\<rparr>\<rparr>,
            turn = 4, round_no = 2, currentTeam = ONE, otherTeam = TWO, lastMove = None,
            fishes = \<lparr>fishesOne = 0, fishesTwo = 0\<rparr>,
            currentPieces = [\<lparr>x_coo = 0, y_coo = 0, isDouble = True\<rparr>]\<rparr> \<and>
   GameState_init \<lparr>hexFields = \<lparr>gameField = [[\<lparr>ident = 0, field = FTeam ONE\<rparr>]]\<rparr>\<rparr> (4 + 1) ONE
       \<lparr>fishesOne = 0, fishesTwo = 0\<rparr> None
     = Inr \<lparr>startTeam = ONE,
            board = \<lparr>hexFields = \<lparr>gameField = [[\<lparr>ident = 0, field = FTeam ONE\<rparr>]]\<rparr>\<rparr>,
            turn = 5, round_no = 3, currentTeam = TWO, otherTeam = ONE, lastMove = None,
            fishes = \<lparr>fishesOne = 0, fishesTwo = 0\<rparr>,
            currentPieces = []\<rparr> \<and>
   currentTeam \<lparr>startTeam = ONE,
            board = \<lparr>hexFields = \<lparr>gameField = [[\<lparr>ident = 0, field = FTeam ONE\<rparr>]]\<rparr>\<rparr>,
            turn = 5, round_no = 3, currentTeam = TWO, otherTeam = ONE, lastMove = None,
            fishes = \<lparr>fishesOne = 0, fishesTwo = 0\<rparr>,
            currentPieces = []\<rparr> = opponent ONE"
proof -
  have h: "GameState_init \<lparr>hexFields = \<lparr>gameField = [[\<lparr>ident = 0, field = FTeam ONE\<rparr>]]\<rparr>\<rparr> 4 ONE
       \<lparr>fishesOne = 0, fishesTwo = 0\<rparr> None
     = Inr \<lparr>startTeam = ONE,
            board = \<lparr>hexFields = \<lparr>gameField = [[\<lparr>ident = 0, field = FTeam ONE\<rparr>]]\<rparr>\<rparr>,
            turn = 4, round_no = 2, currentTeam = ONE, otherTeam = TWO, lastMove = None,
            fishes = \<lparr>fishesOne = 0, fishesTwo = 0\<rparr>,
            currentPieces = [\<lparr>x_coo = 0, y_coo = 0, isDouble = True\<rparr>]\<rparr>"
    by code_simp
  have h': "GameState_init \<lparr>hexFields = \<lparr>gameField = [[\<lparr>ident = 0, field = FTeam ONE\<rparr>]]\<rparr>\<rparr> (4 + 1) ONE
       \<lparr>fishesOne = 0, fishesTwo = 0\<rparr> None
     = Inr \<lparr>startTeam = ONE,
            board = \<lparr>hexFields = \<lparr>gameField = [[\<lparr>ident = 0, field = FTeam ONE\<rparr>]]\<rparr>\<rparr>,
            turn = 5, round_no = 3, currentTeam = TWO, otherTeam = ONE, lastMove = None,
            fishes = \<lparr>fishesOne = 0, fishesTwo = 0\<rparr>,
            currentPieces = []\<rparr>"
    by code_simp
  from C7_turn_parity[OF h h'] show ?thesis
    using h h' by simp
qed

section \<open>The client: error packets and the room-left procedure\<close>

text \<open>
  C8. On an error packet the dispatcher logs, calls \<^verbatim>\<open>on_error\<close> with the packet's
  text and then runs \<^verbatim>\<open>stop\<close>: afterwards \<open>running\<close> is false and the interface is
  not connected (the transport is closed if it was open), whatever the state before.
\<close>

theorem C8_error_packet_stops:
  "running (on_object c (Errorpacket s)) = False \<and>
   connected (on_object c (Errorpacket s)) = False \<and>
   trace (on_object c (Errorpacket s)) =
     trace c @ [Log_error, Handler_on_error s, Log_info] @
       (if connected c then [Net_disconnect] else [])"
  by (simp add: on_object_def stop_def emit_def disconnect_def Let_def)

text \<open>
  Two more runs of the room-left procedure. When the second attempt connects, the client
  joins once and keeps running. When the first attempt raises and the second connects,
  \<^verbatim>\<open>stop\<close> has set \<open>running\<close> to false, yet the loop goes on, reconnects and joins.
\<close>

lemma handle_left_second_attempt_connects:
  "handle_left (\<lambda>i. if i = 0 then StaysDown else Connects)
     \<lparr>reservation = [], room_id = [], auto_reconnect = True, survive = False,
      running = True, connected = True, first_time = False, trace = []\<rparr>
   = \<lparr>reservation = [], room_id = [], auto_reconnect = True, survive = False,
      running = True, connected = True, first_time = False,
      trace = [Net_disconnect, Log_info,
               Log_info, Net_connect, Sleep 1,
               Log_info, Net_connect, Log_info,
               Sent Join, History_new_slot]\<rparr>"
  by code_simp

lemma handle_left_raise_then_connect:
  "handle_left (\<lambda>i. if i = 0 then Raises else Connects)
     \<lparr>reservation = [], room_id = [], auto_reconnect = True, survive = False,
      running = True, connected = True, first_time = False, trace = []\<rparr>
   = \<lparr>reservation = [], room_id = [], auto_reconnect = True, survive = False,
      running = False, connected = True, first_time = False,
      trace = [Net_disconnect, Log_info,
               Log_info, Net_connect, Log_exception, Log_info, Log_info, Sleep 1,
               Log_info, Net_connect, Log_info,
               Sent Join, History_new_slot]\<rparr>"
  by code_simp

text \<open>
  C3. The claim: after a room-left event with auto-reconnect, three failed attempts stop
  the client without a rejoin. In the code the loop is followed by \<^verbatim>\<open>self.join()\<close>
  whatever the loop did, and only the \<^verbatim>\<open>except\<close> branch calls \<^verbatim>\<open>stop\<close>: when all
  three calls of \<^verbatim>\<open>connect\<close> return without a connection, the client sleeps three
  times, sends a join packet on the unconnected interface and is still running.
\<close>

theorem C3_three_failed_attempts_join_anyway:
  "handle_left (\<lambda>i. StaysDown)
     \<lparr>reservation = [], room_id = [], auto_reconnect = True, survive = False,
      running = True, connected = True, first_time = False, trace = []\<rparr>
   = \<lparr>reservation = [], room_id = [], auto_reconnect = True, survive = False,
      running = True, connected = False, first_time = False,
      trace = [Net_disconnect, Log_info,
               Log_info, Net_connect, Sleep 1,
               Log_info, Net_connect, Sleep 1,
               Log_info, Net_connect, Sleep 1,
               Sent Join, History_new_slot]\<rparr>"
  by code_simp

section \<open>Ray casting: getMovesInDirection\<close>

text \<open>
  The loop never meets an \<^verbatim>\<open>IndexError\<close>: it returns one move for every
  \<open>i\<close> of \<^verbatim>\<open>range(1, width)\<close>, whatever the destination.
\<close>

lemma moves_loop_total:
  "moves_loop origin direction is =
     Inr (map (\<lambda>i. Move_init (addVector (getDoubleHex origin) (timesV direction i)) (Some origin)) is)"
  by (induction "is") (simp_all add: move_attempt_def)

lemma getMovesInDirection_total:
  "getMovesInDirection b origin direction =
     Inr (map (\<lambda>i. Move_init (addVector (getDoubleHex origin) (timesV direction i)) (Some origin))
            (py_range2 1 (width (hexFields b))))"
  by (simp add: getMovesInDirection_def moves_loop_total)

text \<open>
  C2. The claim: the ray stops when the destination leaves the board, so every returned
  destination is on the board. The comment and the \<^verbatim>\<open>except IndexError: break\<close> of
  \<^verbatim>\<open>getMovesInDirection\<close> say the same, but nothing in the \<^verbatim>\<open>try\<close> body looks at the
  board. On a 2 x 2 board, from the double-hex origin \<open>(0, 0)\<close> in direction
  \<open>(-2, 0)\<close> (LEFT), the result is the one move to \<open>(-2, 0)\<close>, whose array form
  \<open>(-1, 0)\<close> is not valid.
\<close>

theorem C2_moves_leave_the_board:
  "getMovesInDirection
     \<lparr>hexFields = \<lparr>gameField = [[\<lparr>ident = 0, field = FInt 1\<rparr>, \<lparr>ident = 1, field = FInt 1\<rparr>],
                               [\<lparr>ident = 2, field = FInt 1\<rparr>, \<lparr>ident = 3, field = FInt 1\<rparr>]]\<rparr>\<rparr>
     \<lparr>x_coo = 0, y_coo = 0, isDouble = True\<rparr> \<lparr>dx = - 2, dy = 0\<rparr>
   = Inr [\<lparr>toCoo = \<lparr>x_coo = - 2, y_coo = 0, isDouble = True\<rparr>,
           fromCoo = Some \<lparr>x_coo = 0, y_coo = 0, isDouble = True\<rparr>\<rparr>] \<and>
   getArray \<lparr>x_coo = - 2, y_coo = 0, isDouble = True\<rparr> = \<lparr>x_coo = - 1, y_coo = 0, isDouble = False\<rparr> \<and>
   isValid \<lparr>gameField = [[\<lparr>ident = 0, field = FInt 1\<rparr>, \<lparr>ident = 1, field = FInt 1\<rparr>],
                         [\<lparr>ident = 2, field = FInt 1\<rparr>, \<lparr>ident = 3, field = FInt 1\<rparr>]]\<rparr>
     \<lparr>x_coo = - 2, y_coo = 0, isDouble = True\<rparr> = False"
  by code_simp


section \<open>Board bounds and field lookup\<close>

lemma has_dims_getField:
  assumes "has_dims b W H"
  shows "getField b c =
           (if isValid b c
            then Inr (gameField b ! nat (x_coo (getArray c)) ! nat (y_coo (getArray c)))
            else Inl IndexError)"
proof (cases "isValid b c")
  case True
  then have "0 \<le> x_coo (getArray c)" "x_coo (getArray c) < int W"
       "0 \<le> y_coo (getArray c)" "y_coo (getArray c) < int H"
    using has_dims_isValid[OF assms, of c] by simp_all
  then have "getField_xy b (x_coo (getArray c)) (y_coo (getArray c)) =
             Inr (gameField b ! nat (x_coo (getArray c)) ! nat (y_coo (getArray c)))"
    by (rule has_dims_getField_xy[OF assms])
  with True show ?thesis by (simp add: getField_def isValid_getArray Let_def)
next
  case False
  then show ?thesis by (simp add: getField_def isValid_getArray Let_def)
qed

lemma has_dims_getFieldOrNone:
  assumes "has_dims b W H"
  shows "getFieldOrNone b c =
           (if isValid b c
            then Inr (Some (gameField b ! nat (x_coo (getArray c)) ! nat (y_coo (getArray c))))
            else Inr None)"
proof (cases "isValid b c")
  case True
  then have "0 \<le> x_coo (getArray c)" "x_coo (getArray c) < int W"
       "0 \<le> y_coo (getArray c)" "y_coo (getArray c) < int H"
    using has_dims_isValid[OF assms, of c] by simp_all
  then have "getField_xy b (x_coo (getArray c)) (y_coo (getArray c)) =
             Inr (gameField b ! nat (x_coo (getArray c)) ! nat (y_coo (getArray c)))"
    by (rule has_dims_getField_xy[OF assms])
  with True show ?thesis by (simp add: getFieldOrNone_def isValid_getArray Let_def)
next
  case False
  then show ?thesis by (simp add: getFieldOrNone_def isValid_getArray Let_def)
qed

text \<open>
  For a coordinate tagged as array form nothing is converted, and the bounds test and
  both lookups do on every rectangular board what they are meant to do.
\<close>

lemma array_coordinate_bounds:
  assumes "has_dims b W H"
  shows "isValid b \<lparr>x_coo = x, y_coo = y, isDouble = False\<rparr> \<longleftrightarrow>
           0 \<le> x \<and> x < int W \<and> 0 \<le> y \<and> y < int H"
  using has_dims_isValid[OF assms, of "\<lparr>x_coo = x, y_coo = y, isDouble = False\<rparr>"]
  by (simp add: getArray_def)

text \<open>
  C6. The claim: \<^verbatim>\<open>isValid\<close> holds exactly when the array form of the coordinate lies
  within the board, \<^verbatim>\<open>getField\<close> raises on every other coordinate, and
  \<^verbatim>\<open>getFieldOrNone\<close> returns the field of a valid coordinate and \<^verbatim>\<open>None\<close> otherwise. For
  a double-hex coordinate the code takes the array form from \<^verbatim>\<open>doubleHexToArray\<close>, which
  is one column off on odd rows. On a 2 x 2 board: the array coordinate \<open>(2, 1)\<close> is
  not valid and its double-hex form is \<open>(5, 1)\<close>, yet \<^verbatim>\<open>isValid\<close> holds for the
  double-hex coordinate \<open>(5, 1)\<close>, and \<^verbatim>\<open>getField\<close> and \<^verbatim>\<open>getFieldOrNone\<close> return the
  field at \<open>[1][1]\<close> for it; for the double-hex coordinate \<open>(3, 1)\<close>, the form of the
  array coordinate \<open>(1, 1)\<close>, they return the field at \<open>[0][1]\<close>.
\<close>

theorem C6_double_hex_lookup_off_by_one:
  "arrayToDoubleHex \<lparr>x_coo = 2, y_coo = 1, isDouble = False\<rparr>
     = \<lparr>x_coo = 5, y_coo = 1, isDouble = True\<rparr> \<and>
   isValid \<lparr>gameField = [[\<lparr>ident = 0, field = FInt 1\<rparr>, \<lparr>ident = 1, field = FInt 2\<rparr>],
                          [\<lparr>ident = 2, field = FInt 3\<rparr>, \<lparr>ident = 3, field = FInt 4\<rparr>]]\<rparr>
     \<lparr>x_coo = 2, y_coo = 1, isDouble = False\<rparr> = False \<and>
   isValid \<lparr>gameField = [[\<lparr>ident = 0, field = FInt 1\<rparr>, \<lparr>ident = 1, field = FInt 2\<rparr>],
                          [\<lparr>ident = 2, field = FInt 3\<rparr>, \<lparr>ident = 3, field = FInt 4\<rparr>]]\<rparr>
     \<lparr>x_coo = 5, y_coo = 1, isDouble = True\<rparr> = True \<and>
   getField \<lparr>gameField = [[\<lparr>ident = 0, field = FInt 1\<rparr>, \<lparr>ident = 1, field = FInt 2\<rparr>],
                          [\<lparr>ident = 2, field = FInt 3\<rparr>, \<lparr>ident = 3, field = FInt 4\<rparr>]]\<rparr>
     \<lparr>x_coo = 5, y_coo = 1, isDouble = True\<rparr> = Inr \<lparr>ident = 3, field = FInt 4\<rparr> \<and>
   getFieldOrNone \<lparr>gameField = [[\<lparr>ident = 0, field = FInt 1\<rparr>, \<lparr>ident = 1, field = FInt 2\<rparr>],
                          [\<lparr>ident = 2, field = FInt 3\<rparr>, \<lparr>ident = 3, field = FInt 4\<rparr>]]\<rparr>
     \<lparr>x_coo = 5, y_coo = 1, isDouble = True\<rparr> = Inr (Some \<lparr>ident = 3, field = FInt 4\<rparr>) \<and>
   arrayToDoubleHex \<lparr>x_coo = 1, y_coo = 1, isDouble = False\<rparr>
     = \<lparr>x_coo = 3, y_coo = 1, isDouble = True\<rparr> \<and>
   getField \<lparr>gameField = [[\<lparr>ident = 0, field = FInt 1\<rparr>, \<lparr>ident = 1, field = FInt 2\<rparr>],
                          [\<lparr>ident = 2, field = FInt 3\<rparr>, \<lparr>ident = 3, field = FInt 4\<rparr>]]\<rparr>
     \<lparr>x_coo = 1, y_coo = 1, isDouble = False\<rparr> = Inr \<lparr>ident = 3, field = FInt 4\<rparr> \<and>
   getField \<lparr>gameField = [[\<lparr>ident = 0, field = FInt 1\<rparr>, \<lparr>ident = 1, field = FInt 2\<rparr>],
                          [\<lparr>ident = 2, field = FInt 3\<rparr>, \<lparr>ident = 3, field = FInt 4\<rparr>]]\<rparr>
     \<lparr>x_coo = 3, y_coo = 1, isDouble = True\<rparr> = Inr \<lparr>ident = 1, field = FInt 2\<rparr>"
  by code_simp

section \<open>Board comparison\<close>

lemma compareTo_has_dims:
  assumes a: "has_dims a W H" and b: "has_dims b W H"
  shows "compareTo a b =
           Inr (concat (map (\<lambda>x. concat (map (\<lambda>y.
                  if Field_ne (gameField a ! x ! y) (gameField b ! x ! y)
                  then [gameField a ! x ! y] else []) [0..<H])) [0..<W]))"
proof -
  have len: "length (gameField a) = W" using a by (simp add: has_dims_def)
  have "forE (py_range (int W))
          (\<lambda>x. case height a of
                  Inl e \<Rightarrow> Inl e
                | Inr h \<Rightarrow>
                    forE (py_range h)
                      (\<lambda>y. case getField_xy a x y of
                              Inl e \<Rightarrow> Inl e
                            | Inr f \<Rightarrow>
                                (case getField_xy b x y of
                                   Inl e \<Rightarrow> Inl e
                                 | Inr g \<Rightarrow> Inr (if Field_ne f g then [f] else []))))
        = Inr (concat (map (\<lambda>x. concat (map (\<lambda>y.
                  if Field_ne (gameField a ! x ! y) (gameField b ! x ! y)
                  then [gameField a ! x ! y] else []) [0..<H])) [0..<W]))"
  proof (rule forE_py_range)
    fix k assume k: "k < W"
    then have h: "height a = Inr (int H)" using has_dims_height[OF a] by simp
    have "forE (py_range (int H))
            (\<lambda>y. case getField_xy a (int k) y of
                    Inl e \<Rightarrow> Inl e
                  | Inr f \<Rightarrow>
                      (case getField_xy b (int k) y of
                         Inl e \<Rightarrow> Inl e
                       | Inr g \<Rightarrow> Inr (if Field_ne f g then [f] else [])))
          = Inr (concat (map (\<lambda>y.
                  if Field_ne (gameField a ! k ! y) (gameField b ! k ! y)
                  then [gameField a ! k ! y] else []) [0..<H]))"
    proof (rule forE_py_range)
      fix j assume j: "j < H"
      have "getField_xy a (int k) (int j) = Inr (gameField a ! k ! j)"
        using has_dims_getField_xy[OF a, of "int k" "int j"] k j by simp
      moreover have "getField_xy b (int k) (int j) = Inr (gameField b ! k ! j)"
        using has_dims_getField_xy[OF b, of "int k" "int j"] k j by simp
      ultimately show "(case getField_xy a (int k) (int j) of
                    Inl e \<Rightarrow> Inl e
                  | Inr f \<Rightarrow>
                      (case getField_xy b (int k) (int j) of
                         Inl e \<Rightarrow> Inl e
                       | Inr g \<Rightarrow> Inr (if Field_ne f g then [f] else [])))
          = Inr (if Field_ne (gameField a ! k ! j) (gameField b ! k ! j)
                  then [gameField a ! k ! j] else [])"
        by simp
    qed
    with h show "(case height a of
                  Inl e \<Rightarrow> Inl e
                | Inr h \<Rightarrow>
                    forE (py_range h)
                      (\<lambda>y. case getField_xy a (int k) y of
                              Inl e \<Rightarrow> Inl e
                            | Inr f \<Rightarrow>
                                (case getField_xy b (int k) y of
                                   Inl e \<Rightarrow> Inl e
                                 | Inr g \<Rightarrow> Inr (if Field_ne f g then [f] else []))))
          = Inr (concat (map (\<lambda>y.
                  if Field_ne (gameField a ! k ! y) (gameField b ! k ! y)
                  then [gameField a ! k ! y] else []) [0..<H]))"
      by simp
  qed
  then show ?thesis by (simp add: compareTo_def len)
qed

text \<open>
  What \<^verbatim>\<open>HexBoard.__eq__\<close> does return: compared with itself (the same field objects)
  a board gives the empty list, which is falsy.
\<close>

lemma HexBoard_eq_self:
  assumes "has_dims a W H"
  shows "HexBoard_eq a a = Inr [] \<and> \<not> py_bool_list ([] :: Field list)"
  unfolding HexBoard_eq_def
  by (simp add: compareTo_has_dims[OF assms assms] Field_ne_def py_bool_list_def)

text \<open>
  C9. The claim: \<^verbatim>\<open>__eq__\<close> returns the list of the receiver's fields that differ from
  the other board's, so a board compared with itself or with any cell-wise equal board
  gives the empty list; the docstring of \<^verbatim>\<open>compareTo\<close> promises the same (an empty list
  if the boards are equal). \<^verbatim>\<open>Field\<close> has no \<^verbatim>\<open>__eq__\<close>, so \<^verbatim>\<open>!=\<close> compares objects, not
  contents: two 1 x 1 boards that each hold one fish in a field object of their own are
  cell-wise equal, and \<^verbatim>\<open>__eq__\<close> returns the receiver's field, a non-empty and hence
  truthy list.
\<close>

theorem C9_equal_content_reported_as_different:
  "field \<lparr>ident = 0, field = FInt 1\<rparr> = field \<lparr>ident = 1, field = FInt 1\<rparr> \<and>
   HexBoard_eq \<lparr>gameField = [[\<lparr>ident = 0, field = FInt 1\<rparr>]]\<rparr>
               \<lparr>gameField = [[\<lparr>ident = 1, field = FInt 1\<rparr>]]\<rparr>
     = Inr [\<lparr>ident = 0, field = FInt 1\<rparr>] \<and>
   py_bool_list [\<lparr>ident = 0, field = FInt 1\<rparr>] = True \<and>
   HexBoard_eq \<lparr>gameField = [[\<lparr>ident = 0, field = FInt 1\<rparr>]]\<rparr>
               \<lparr>gameField = [[\<lparr>ident = 0, field = FInt 1\<rparr>]]\<rparr>
     = Inr []"
  by code_simp

section \<open>Flat indices: getFieldByIndex and getAllFields\<close>

lemma getFieldByIndex_has_dims:
  assumes d: "has_dims b W H" and w: "0 < W" and i: "0 \<le> i"
  shows "getFieldByIndex b i =
           (if i div int W < int W \<and> i mod int W < int H
            then Inr (gameField b ! nat (i div int W) ! nat (i mod int W))
            else Inl IndexError)"
proof -
  have wb: "width b = int W" by (rule has_dims_width[OF d])
  have nn: "0 \<le> i div int W" "0 \<le> i mod int W"
    using w i by (simp_all add: pos_imp_zdiv_nonneg_iff)
  have v: "isValid b \<lparr>x_coo = i div int W, y_coo = i mod int W, isDouble = False\<rparr>
           \<longleftrightarrow> i div int W < int W \<and> i mod int W < int H"
    using has_dims_isValid[OF d, of "\<lparr>x_coo = i div int W, y_coo = i mod int W, isDouble = False\<rparr>"] nn
    by (simp add: getArray_def)
  show ?thesis
    using w v
    by (simp add: getFieldByIndex_def wb has_dims_getField[OF d] getArray_def)
qed

lemma length_concat_rect:
  "list_all (\<lambda>r. length r = H) gf \<Longrightarrow> length (concat gf) = length gf * H"
  by (induction gf) simp_all

lemma concat_nth_rect:
  "list_all (\<lambda>r. length r = H) gf \<Longrightarrow> i < length gf * H \<Longrightarrow>
   concat gf ! i = gf ! (i div H) ! (i mod H)"
proof (induction gf arbitrary: i)
  case Nil
  then show ?case by simp
next
  case (Cons r rs)
  then have lr: "length r = H" and rest: "list_all (\<lambda>r. length r = H) rs" by simp_all
  show ?case
  proof (cases "i < H")
    case True
    then show ?thesis by (simp add: nth_append lr)
  next
    case False
    then have ge: "H \<le> i" by simp
    from Cons.prems(2) have "i < H + length rs * H" by simp
    with ge have lt: "i - H < length rs * H" by arith
    from lt have hpos: "0 < H" by (cases H) simp_all
    have "concat (r # rs) ! i = concat rs ! (i - H)"
      using False by (simp add: nth_append lr)
    also have "\<dots> = rs ! ((i - H) div H) ! ((i - H) mod H)"
      by (rule Cons.IH[OF rest lt])
    also have "\<dots> = (r # rs) ! (i div H) ! (i mod H)"
      using ge hpos by (simp add: le_div_geq le_mod_geq)
    finally show ?thesis .
  qed
qed

lemma rect_enumeration:
  assumes "list_all (\<lambda>r. length r = H) gf"
  shows "map (\<lambda>k. gf ! (k div H) ! (k mod H)) [0..<length gf * H] = concat gf"
proof (rule nth_equalityI)
  show "length (map (\<lambda>k. gf ! (k div H) ! (k mod H)) [0..<length gf * H]) = length (concat gf)"
    by (simp add: length_concat_rect[OF assms])
next
  fix i assume "i < length (map (\<lambda>k. gf ! (k div H) ! (k mod H)) [0..<length gf * H])"
  then have "i < length gf * H" by simp
  then show "map (\<lambda>k. gf ! (k div H) ! (k mod H)) [0..<length gf * H] ! i = concat gf ! i"
    by (simp add: concat_nth_rect[OF assms])
qed

lemma getAllFields_square:
  assumes d: "has_dims b W W" and w: "0 < W"
  shows "getAllFields b = Inr (concat (gameField b))"
proof -
  have la: "list_all (\<lambda>r. length r = W) (gameField b)" and len: "length (gameField b) = W"
    using d by (simp_all add: has_dims_def)
  have "mapE (getFieldByIndex b) (py_range (int (W * W)))
        = Inr (map (\<lambda>k. gameField b ! (k div W) ! (k mod W)) [0..<W * W])"
  proof (rule mapE_py_range)
    fix k assume k: "k < W * W"
    then have "k div W < W" using w by (simp add: less_mult_imp_div_less)
    moreover have "k mod W < W" using w by simp
    ultimately show "getFieldByIndex b (int k) = Inr (gameField b ! (k div W) ! (k mod W))"
      using getFieldByIndex_has_dims[OF d w, of "int k"]
      by (simp add: zdiv_int[symmetric] zmod_int[symmetric])
  qed
  then show ?thesis
    using rect_enumeration[OF la] len
    by (simp add: getAllFields_def has_dims_height[OF d w] has_dims_width[OF d])
qed

lemma py_getitem_error: "py_getitem xs i = Inl e \<Longrightarrow> e = IndexError"
  by (simp add: py_getitem_def split: if_splits)

lemma getField_error: "getField b c = Inl e \<Longrightarrow> e = IndexError"
  by (auto simp: getField_def getField_xy_def Let_def split: if_splits sum.splits
           dest: py_getitem_error)

lemma height_Inr_rows:
  assumes "height b = Inr h"
  shows "\<exists>row0 rest. gameField b = row0 # rest \<and> h = int (length row0)"
proof (cases "gameField b")
  case Nil
  with assms show ?thesis by (simp add: height_def py_getitem_def)
next
  case (Cons row0 rest)
  with assms show ?thesis by (auto simp: height_def py_getitem_def)
qed

lemma isValid_height:
  assumes "height b = Inr h"
  shows "isValid b c \<longleftrightarrow>
           0 \<le> x_coo (getArray c) \<and> x_coo (getArray c) < width b \<and>
           0 \<le> y_coo (getArray c) \<and> y_coo (getArray c) < h"
proof -
  from height_Inr_rows[OF assms] obtain row0 rest
    where "gameField b = row0 # rest" "h = int (length row0)" by blast
  then show ?thesis by (auto simp: isValid_def Let_def width_def)
qed

lemma getFieldByIndex_invalid:
  assumes h: "height b = Inr h" and w: "width b \<noteq> 0"
      and bad: "\<not> (0 \<le> i div width b \<and> i div width b < width b \<and>
                  0 \<le> i mod width b \<and> i mod width b < h)"
  shows "getFieldByIndex b i = Inl IndexError"
proof -
  have "\<not> isValid b \<lparr>x_coo = i div width b, y_coo = i mod width b, isDouble = False\<rparr>"
    using bad by (simp add: isValid_height[OF h] getArray_def)
  then show ?thesis using w
    by (simp add: getFieldByIndex_def getField_def Let_def isValid_getArray)
qed

lemma getAllFields_raises:
  assumes h: "height b = Inr h" and hpos: "0 < h" and ne: "width b \<noteq> h"
  shows "getAllFields b = Inl IndexError"
proof -
  from height_Inr_rows[OF h] have wpos: "0 < width b" by (auto simp: width_def)
  define a where "a = (if h < width b then h else width b * width b)"
  have a0: "0 \<le> a" using hpos by (simp add: a_def)
  have alt: "a < width b * h"
  proof (cases "h < width b")
    case True
    then have "1 < width b" using hpos by simp
    then have "h * 1 < h * width b" using hpos by (rule mult_strict_left_mono)
    with True show ?thesis by (simp add: a_def mult.commute)
  next
    case False
    with ne have "width b < h" by simp
    then have "width b * width b < width b * h" using wpos by (rule mult_strict_left_mono)
    with False show ?thesis by (simp add: a_def)
  qed
  from a0 alt have mem: "a \<in> set (py_range (width b * h))" by (simp add: set_py_range)
  have bad: "\<not> (0 \<le> a div width b \<and> a div width b < width b \<and>
                 0 \<le> a mod width b \<and> a mod width b < h)"
  proof (cases "h < width b")
    case True
    then show ?thesis using hpos by (simp add: a_def)
  next
    case False
    then show ?thesis using wpos by (simp add: a_def)
  qed
  have fa: "getFieldByIndex b a = Inl IndexError"
    using wpos by (intro getFieldByIndex_invalid[OF h _ bad]) simp
  have "mapE (getFieldByIndex b) (py_range (width b * h)) = Inl IndexError"
  proof (rule mapE_raises[where f = "getFieldByIndex b" and a = a, OF mem fa])
    fix z e assume "getFieldByIndex b z = Inl e"
    then show "e = IndexError"
      using wpos by (auto simp: getFieldByIndex_def dest: getField_error)
  qed
  then show ?thesis by (simp add: getAllFields_def h)
qed

text \<open>
  C10, as claimed: on every board whose width differs from its height \<^verbatim>\<open>getAllFields\<close>
  raises. It does not on a board whose rows are empty: with two rows of no fields the
  width is 2, the height 0, \<^verbatim>\<open>range(width * height)\<close> is empty, and \<^verbatim>\<open>getAllFields\<close>
  and \<^verbatim>\<open>getPenguins\<close> return the empty list.
\<close>

theorem C10_zero_height_board_counterexample:
  "width \<lparr>gameField = [[], []]\<rparr> = 2 \<and>
   height \<lparr>gameField = [[], []]\<rparr> = Inr 0 \<and>
   getAllFields \<lparr>gameField = [[], []]\<rparr> = Inr [] \<and>
   getPenguins \<lparr>hexFields = \<lparr>gameField = [[], []]\<rparr>\<rparr> = Inr []"
  by code_simp

text \<open>
  C10, amended. \<^verbatim>\<open>getFieldByIndex\<close> looks up \<open>x = index // width\<close>,
  \<open>y = index % width\<close>. On every board whose height is at least 1 and differs from
  its width, \<^verbatim>\<open>getAllFields\<close> raises \<^verbatim>\<open>IndexError\<close>, and so does \<^verbatim>\<open>getPenguins\<close>. On
  a square board of \<open>W \<ge> 1\<close> rows of \<open>W\<close> fields \<^verbatim>\<open>getAllFields\<close> returns all fields
  row by row and \<^verbatim>\<open>getPenguins\<close> the occupied ones among them. On a board of height 0
  both return the empty list, and on the board without rows both raise \<^verbatim>\<open>IndexError\<close>
  (from \<^verbatim>\<open>height()\<close>).
\<close>

theorem C10_getAllFields_by_shape:
  "(width b \<noteq> 0 \<longrightarrow>
      getFieldByIndex b i =
        getField b \<lparr>x_coo = i div width b, y_coo = i mod width b, isDouble = False\<rparr>) \<and>
   (height b = Inr h \<and> 0 < h \<and> width b \<noteq> h \<longrightarrow>
      getAllFields b = Inl IndexError \<and> getPenguins \<lparr>hexFields = b\<rparr> = Inl IndexError) \<and>
   (has_dims b W W \<and> 0 < W \<longrightarrow>
      getAllFields b = Inr (concat (gameField b)) \<and>
      getPenguins \<lparr>hexFields = b\<rparr> = Inr (filter isOccupied (concat (gameField b)))) \<and>
   (height b = Inr 0 \<longrightarrow>
      getAllFields b = Inr [] \<and> getPenguins \<lparr>hexFields = b\<rparr> = Inr []) \<and>
   (gameField b = [] \<longrightarrow>
      getAllFields b = Inl IndexError \<and> getPenguins \<lparr>hexFields = b\<rparr> = Inl IndexError)"
proof -
  have idx: "width b \<noteq> 0 \<longrightarrow>
      getFieldByIndex b i =
        getField b \<lparr>x_coo = i div width b, y_coo = i mod width b, isDouble = False\<rparr>"
    by (simp add: getFieldByIndex_def)
  have ns: "height b = Inr h \<and> 0 < h \<and> width b \<noteq> h \<longrightarrow>
      getAllFields b = Inl IndexError \<and> getPenguins \<lparr>hexFields = b\<rparr> = Inl IndexError"
    using getAllFields_raises[of b h] by (simp add: getPenguins_def)
  have sq: "has_dims b W W \<and> 0 < W \<longrightarrow>
      getAllFields b = Inr (concat (gameField b)) \<and>
      getPenguins \<lparr>hexFields = b\<rparr> = Inr (filter isOccupied (concat (gameField b)))"
    using getAllFields_square[of b W] by (auto simp: getPenguins_def)
  have flat: "height b = Inr 0 \<longrightarrow>
      getAllFields b = Inr [] \<and> getPenguins \<lparr>hexFields = b\<rparr> = Inr []"
    by (auto simp: getPenguins_def getAllFields_def py_range_def)
  have none: "gameField b = [] \<longrightarrow>
      getAllFields b = Inl IndexError \<and> getPenguins \<lparr>hexFields = b\<rparr> = Inl IndexError"
    by (auto simp: getPenguins_def getAllFields_def height_def py_getitem_def)
  from idx ns sq flat none show ?thesis by blast
qed

theorem C10_getAllFields_by_shape_witness:
  "height \<lparr>gameField = [[\<lparr>ident = 0, field = FInt 1\<rparr>, \<lparr>ident = 1, field = FTeam ONE\<rparr>]]\<rparr>
     = Inr 2 \<and>
   width \<lparr>gameField = [[\<lparr>ident = 0, field = FInt 1\<rparr>, \<lparr>ident = 1, field = FTeam ONE\<rparr>]]\<rparr> = 1 \<and>
   getAllFields \<lparr>gameField = [[\<lparr>ident = 0, field = FInt 1\<rparr>, \<lparr>ident = 1, field = FTeam ONE\<rparr>]]\<rparr>
     = Inl IndexError \<and>
   getPenguins \<lparr>hexFields =
       \<lparr>gameField = [[\<lparr>ident = 0, field = FInt 1\<rparr>, \<lparr>ident = 1, field = FTeam ONE\<rparr>]]\<rparr>\<rparr>
     = Inl IndexError \<and>
   has_dims \<lparr>gameField = [[\<lparr>ident = 0, field = FTeam ONE\<rparr>]]\<rparr> 1 1 \<and>
   getAllFields \<lparr>gameField = [[\<lparr>ident = 0, field = FTeam ONE\<rparr>]]\<rparr>
     = Inr [\<lparr>ident = 0, field = FTeam ONE\<rparr>]"
proof -
  have hh: "height \<lparr>gameField = [[\<lparr>ident = 0, field = FInt 1\<rparr>, \<lparr>ident = 1, field = FTeam ONE\<rparr>]]\<rparr>
     = Inr 2"
    by (simp add: height_def py_getitem_def)
  have ww: "width \<lparr>gameField = [[\<lparr>ident = 0, field = FInt 1\<rparr>, \<lparr>ident = 1, field = FTeam ONE\<rparr>]]\<rparr> = 1"
    by (simp add: width_def)
  have d: "has_dims \<lparr>gameField = [[\<lparr>ident = 0, field = FTeam ONE\<rparr>]]\<rparr> 1 1"
    by (simp add: has_dims_def)
  show ?thesis
    using hh ww d
      C10_getAllFields_by_shape[of
        "\<lparr>gameField = [[\<lparr>ident = 0, field = FInt 1\<rparr>, \<lparr>ident = 1, field = FTeam ONE\<rparr>]]\<rparr>" 0 2 1]
      C10_getAllFields_by_shape[of "\<lparr>gameField = [[\<lparr>ident = 0, field = FTeam ONE\<rparr>]]\<rparr>" 0 1 1]
    by simp
qed

section \<open>Move generation by phase\<close>

lemma forE_py_range_int:
  assumes "\<And>a. 0 \<le> a \<Longrightarrow> a < n \<Longrightarrow> body a = Inr (g a)"
  shows "forE (py_range n) body = Inr (concat (map g (py_range n)))"
  by (rule forE_all_Inr) (simp add: set_py_range assms)

lemma getField_Inr_isValid: "getField b c = Inr f \<Longrightarrow> isValid b c"
  by (simp add: getField_def Let_def isValid_getArray split: if_splits)

lemma getTeamsPenguins_cells:
  assumes ok: "getTeamsPenguins b team = Inr ps" and x: "0 \<le> x" "x < width (hexFields b)"
  shows "\<exists>h. height (hexFields b) = Inr h \<and>
             (\<forall>y. 0 \<le> y \<and> y < h \<longrightarrow>
                  (\<exists>f. getField (hexFields b) \<lparr>x_coo = x, y_coo = y, isDouble = False\<rparr> = Inr f))"
proof -
  from x have mem: "x \<in> set (py_range (width (hexFields b)))" by (simp add: set_py_range)
  from forE_InrD[OF ok[unfolded getTeamsPenguins_def] mem]
  obtain zs where row: "(case height (hexFields b) of
               Inl e \<Rightarrow> Inl e
             | Inr h \<Rightarrow>
                 forE (py_range h)
                   (\<lambda>y. case getField (hexFields b) \<lparr>x_coo = x, y_coo = y, isDouble = False\<rparr> of
                           Inl e \<Rightarrow> Inl e
                         | Inr currentField \<Rightarrow>
                             Inr (if isOccupied currentField \<and>
                                     (case getPenguin currentField of
                                        None \<Rightarrow> False
                                      | Some t \<Rightarrow> Team_eq t team)
                                  then [getDoubleHex \<lparr>x_coo = x, y_coo = y, isDouble = False\<rparr>]
                                  else []))) = Inr zs"
    by blast
  then obtain h where h: "height (hexFields b) = Inr h"
    by (cases "height (hexFields b)") simp_all
  with row have inner: "forE (py_range h)
                   (\<lambda>y. case getField (hexFields b) \<lparr>x_coo = x, y_coo = y, isDouble = False\<rparr> of
                           Inl e \<Rightarrow> Inl e
                         | Inr currentField \<Rightarrow>
                             Inr (if isOccupied currentField \<and>
                                     (case getPenguin currentField of
                                        None \<Rightarrow> False
                                      | Some t \<Rightarrow> Team_eq t team)
                                  then [getDoubleHex \<lparr>x_coo = x, y_coo = y, isDouble = False\<rparr>]
                                  else [])) = Inr zs"
    by simp
  have "\<exists>f. getField (hexFields b) \<lparr>x_coo = x, y_coo = y, isDouble = False\<rparr> = Inr f"
    if "0 \<le> y \<and> y < h" for y
  proof -
    from that have "y \<in> set (py_range h)" by (simp add: set_py_range)
    from forE_InrD[OF inner this] show ?thesis
      by (cases "getField (hexFields b) \<lparr>x_coo = x, y_coo = y, isDouble = False\<rparr>") simp_all
  qed
  with h show ?thesis by blast
qed

lemma forE_mem:
  "forE xs body = Inr ys \<Longrightarrow> p \<in> set ys \<Longrightarrow> \<exists>a\<in>set xs. \<exists>zs. body a = Inr zs \<and> p \<in> set zs"
  by (induction xs arbitrary: ys) (auto split: sum.splits)

lemma getTeamsPenguins_pieces:
  assumes ok: "getTeamsPenguins b team = Inr ps" and p: "p \<in> set ps"
  shows "\<exists>x y. p = arrayToDoubleHex \<lparr>x_coo = x, y_coo = y, isDouble = False\<rparr> \<and>
               isValid (hexFields b) \<lparr>x_coo = x, y_coo = y, isDouble = False\<rparr>"
proof -
  from forE_mem[OF ok[unfolded getTeamsPenguins_def] p]
  obtain x zs where row: "(case height (hexFields b) of
               Inl e \<Rightarrow> Inl e
             | Inr h \<Rightarrow>
                 forE (py_range h)
                   (\<lambda>y. case getField (hexFields b) \<lparr>x_coo = x, y_coo = y, isDouble = False\<rparr> of
                           Inl e \<Rightarrow> Inl e
                         | Inr currentField \<Rightarrow>
                             Inr (if isOccupied currentField \<and>
                                     (case getPenguin currentField of
                                        None \<Rightarrow> False
                                      | Some t \<Rightarrow> Team_eq t team)
                                  then [getDoubleHex \<lparr>x_coo = x, y_coo = y, isDouble = False\<rparr>]
                                  else []))) = Inr zs" and pz: "p \<in> set zs"
    by blast
  then obtain h where h: "height (hexFields b) = Inr h"
    by (cases "height (hexFields b)") simp_all
  with row have inner: "forE (py_range h)
                   (\<lambda>y. case getField (hexFields b) \<lparr>x_coo = x, y_coo = y, isDouble = False\<rparr> of
                           Inl e \<Rightarrow> Inl e
                         | Inr currentField \<Rightarrow>
                             Inr (if isOccupied currentField \<and>
                                     (case getPenguin currentField of
                                        None \<Rightarrow> False
                                      | Some t \<Rightarrow> Team_eq t team)
                                  then [getDoubleHex \<lparr>x_coo = x, y_coo = y, isDouble = False\<rparr>]
                                  else [])) = Inr zs"
    by simp
  from forE_mem[OF inner pz]
  obtain y ws where cell: "(case getField (hexFields b) \<lparr>x_coo = x, y_coo = y, isDouble = False\<rparr> of
                           Inl e \<Rightarrow> Inl e
                         | Inr currentField \<Rightarrow>
                             Inr (if isOccupied currentField \<and>
                                     (case getPenguin currentField of
                                        None \<Rightarrow> False
                                      | Some t \<Rightarrow> Team_eq t team)
                                  then [getDoubleHex \<lparr>x_coo = x, y_coo = y, isDouble = False\<rparr>]
                                  else [])) = Inr ws" and pw: "p \<in> set ws"
    by blast
  then obtain f where f: "getField (hexFields b) \<lparr>x_coo = x, y_coo = y, isDouble = False\<rparr> = Inr f"
    by (cases "getField (hexFields b) \<lparr>x_coo = x, y_coo = y, isDouble = False\<rparr>") simp_all
  with cell pw have "p = getDoubleHex \<lparr>x_coo = x, y_coo = y, isDouble = False\<rparr>"
    by (auto split: if_splits)
  then have "p = arrayToDoubleHex \<lparr>x_coo = x, y_coo = y, isDouble = False\<rparr>"
    by (simp add: getDoubleHex_def)
  moreover have "isValid (hexFields b) \<lparr>x_coo = x, y_coo = y, isDouble = False\<rparr>"
    using f by (rule getField_Inr_isValid)
  ultimately show ?thesis by blast
qed

lemma isValid_arrayToDoubleHex:
  assumes "isValid b \<lparr>x_coo = x, y_coo = y, isDouble = False\<rparr>"
  shows "isValid b (arrayToDoubleHex \<lparr>x_coo = x, y_coo = y, isDouble = False\<rparr>)"
proof -
  have xa: "x_coo (getArray (arrayToDoubleHex \<lparr>x_coo = x, y_coo = y, isDouble = False\<rparr>))
            = (if y mod 2 = 1 \<and> 1 \<le> x then x - 1 else x)"
    using roundtrip_x[of "\<lparr>x_coo = x, y_coo = y, isDouble = False\<rparr>"]
    by (simp add: getArray_def arrayToDoubleHex_def)
  have ya: "y_coo (getArray (arrayToDoubleHex \<lparr>x_coo = x, y_coo = y, isDouble = False\<rparr>)) = y"
    by (simp add: getArray_def arrayToDoubleHex_def doubleHexToArray_def)
  from assms show ?thesis
    unfolding isValid_def Let_def xa ya
    by (auto simp: getArray_def split: list.splits)
qed

lemma possibleMovesFrom_valid:
  assumes "isValid (hexFields b) p"
  shows "possibleMovesFrom b p =
           Inr (concat (map (\<lambda>d. map (\<lambda>i. Move_init (addVector (getDoubleHex p) (timesV d i)) (Some p))
                                      (py_range2 1 (width (hexFields b)))) DIRECTIONS))"
  using assms
  by (simp add: possibleMovesFrom_def forE_all_Inr[OF getMovesInDirection_total])

lemma possibleMovesFrom_origin:
  assumes "possibleMovesFrom b p = Inr ms" and "m \<in> set ms"
  shows "fromCoo m = Some p"
proof -
  from assms(1) have v: "isValid (hexFields b) p"
    by (simp add: possibleMovesFrom_def split: if_splits)
  from assms show ?thesis
    unfolding possibleMovesFrom_valid[OF v] by (auto simp: Move_init_def)
qed

lemma movement_moves:
  assumes "\<And>p. p \<in> set ps \<Longrightarrow> isValid (hexFields b) p"
  shows "forE ps (\<lambda>piece. possibleMovesFrom b piece) =
           Inr (concat (map (\<lambda>p. projr (possibleMovesFrom b p)) ps))"
proof (rule forE_all_Inr)
  fix p assume "p \<in> set ps"
  then have "isValid (hexFields b) p" by (rule assms)
  then show "possibleMovesFrom b p = Inr (projr (possibleMovesFrom b p))"
    by (simp add: possibleMovesFrom_valid)
qed

lemma placement_moves:
  assumes cells: "\<And>x. 0 \<le> x \<Longrightarrow> x < width hb \<Longrightarrow>
                   \<exists>h. height hb = Inr h \<and>
                     (\<forall>y. 0 \<le> y \<and> y < h \<longrightarrow>
                        (\<exists>f. getField hb \<lparr>x_coo = x, y_coo = y, isDouble = False\<rparr> = Inr f))"
  shows "\<exists>ms. forE (py_range (width hb - 1))
             (\<lambda>x. case height hb of
                     Inl e \<Rightarrow> Inl e
                   | Inr h \<Rightarrow>
                       forE (py_range (h - 1))
                         (\<lambda>y. case getField hb \<lparr>x_coo = x, y_coo = y, isDouble = False\<rparr> of
                                 Inl e \<Rightarrow> Inl e
                               | Inr f \<Rightarrow>
                                   Inr (if \<not> isOccupied f \<and> getFish f = FInt 1
                                        then [Move_init
                                                (getDoubleHex
                                                   \<lparr>x_coo = x, y_coo = y, isDouble = False\<rparr>)
                                                None]
                                        else []))) = Inr ms \<and>
          (\<forall>m. m \<in> set ms \<longleftrightarrow>
             (\<exists>x y h f. 0 \<le> x \<and> x < width hb - 1 \<and> height hb = Inr h \<and> 0 \<le> y \<and> y < h - 1 \<and>
                getField hb \<lparr>x_coo = x, y_coo = y, isDouble = False\<rparr> = Inr f \<and>
                \<not> isOccupied f \<and> getFish f = FInt 1 \<and>
                m = Move_init (arrayToDoubleHex \<lparr>x_coo = x, y_coo = y, isDouble = False\<rparr>) None))"
proof (cases "0 < width hb - 1")
  case False
  then have "py_range (width hb - 1) = []" by (simp add: py_range_def)
  with False show ?thesis by auto
next
  case True
  then have "0 \<le> (0::int)" "0 < width hb" by simp_all
  from cells[OF this] obtain h where h: "height hb = Inr h" by blast
  define G where "G x y =
     (if \<not> isOccupied (projr (getField hb \<lparr>x_coo = x, y_coo = y, isDouble = False\<rparr>)) \<and>
         getFish (projr (getField hb \<lparr>x_coo = x, y_coo = y, isDouble = False\<rparr>)) = FInt 1
      then [Move_init (getDoubleHex \<lparr>x_coo = x, y_coo = y, isDouble = False\<rparr>) None]
      else [])" for x y
  have cell: "\<exists>f. getField hb \<lparr>x_coo = x, y_coo = y, isDouble = False\<rparr> = Inr f"
    if "0 \<le> x" "x < width hb - 1" "0 \<le> y" "y < h - 1" for x y
  proof -
    from that have "x < width hb" by simp
    from cells[OF that(1) this] h that show ?thesis by auto
  qed
  have row: "(case height hb of
                     Inl e \<Rightarrow> Inl e
                   | Inr h \<Rightarrow>
                       forE (py_range (h - 1))
                         (\<lambda>y. case getField hb \<lparr>x_coo = x, y_coo = y, isDouble = False\<rparr> of
                                 Inl e \<Rightarrow> Inl e
                               | Inr f \<Rightarrow>
                                   Inr (if \<not> isOccupied f \<and> getFish f = FInt 1
                                        then [Move_init
                                                (getDoubleHex
                                                   \<lparr>x_coo = x, y_coo = y, isDouble = False\<rparr>)
                                                None]
                                        else [])))
             = Inr (concat (map (G x) (py_range (h - 1))))"
    if x: "0 \<le> x" "x < width hb - 1" for x
  proof -
    have "forE (py_range (h - 1))
                         (\<lambda>y. case getField hb \<lparr>x_coo = x, y_coo = y, isDouble = False\<rparr> of
                                 Inl e \<Rightarrow> Inl e
                               | Inr f \<Rightarrow>
                                   Inr (if \<not> isOccupied f \<and> getFish f = FInt 1
                                        then [Move_init
                                                (getDoubleHex
                                                   \<lparr>x_coo = x, y_coo = y, isDouble = False\<rparr>)
                                                None]
                                        else []))
          = Inr (concat (map (G x) (py_range (h - 1))))"
    proof (rule forE_py_range_int)
      fix y assume "0 \<le> y" "y < h - 1"
      from cell[OF x this] obtain f
        where "getField hb \<lparr>x_coo = x, y_coo = y, isDouble = False\<rparr> = Inr f" by blast
      then show "(case getField hb \<lparr>x_coo = x, y_coo = y, isDouble = False\<rparr> of
                                 Inl e \<Rightarrow> Inl e
                               | Inr f \<Rightarrow>
                                   Inr (if \<not> isOccupied f \<and> getFish f = FInt 1
                                        then [Move_init
                                                (getDoubleHex
                                                   \<lparr>x_coo = x, y_coo = y, isDouble = False\<rparr>)
                                                None]
                                        else [])) = Inr (G x y)"
        by (simp add: G_def)
    qed
    with h show ?thesis by simp
  qed
  have all: "forE (py_range (width hb - 1))
             (\<lambda>x. case height hb of
                     Inl e \<Rightarrow> Inl e
                   | Inr h \<Rightarrow>
                       forE (py_range (h - 1))
                         (\<lambda>y. case getField hb \<lparr>x_coo = x, y_coo = y, isDouble = False\<rparr> of
                                 Inl e \<Rightarrow> Inl e
                               | Inr f \<Rightarrow>
                                   Inr (if \<not> isOccupied f \<and> getFish f = FInt 1
                                        then [Move_init
                                                (getDoubleHex
                                                   \<lparr>x_coo = x, y_coo = y, isDouble = False\<rparr>)
                                                None]
                                        else [])))
        = Inr (concat (map (\<lambda>x. concat (map (G x) (py_range (h - 1)))) (py_range (width hb - 1))))"
    by (rule forE_py_range_int) (rule row)
  have mem: "m \<in> set (concat (map (\<lambda>x. concat (map (G x) (py_range (h - 1)))) (py_range (width hb - 1))))
         \<longleftrightarrow> (\<exists>x y h f. 0 \<le> x \<and> x < width hb - 1 \<and> height hb = Inr h \<and> 0 \<le> y \<and> y < h - 1 \<and>
                getField hb \<lparr>x_coo = x, y_coo = y, isDouble = False\<rparr> = Inr f \<and>
                \<not> isOccupied f \<and> getFish f = FInt 1 \<and>
                m = Move_init (arrayToDoubleHex \<lparr>x_coo = x, y_coo = y, isDouble = False\<rparr>) None)"
    (is "?L \<longleftrightarrow> ?R") for m
  proof
    assume ?L
    then obtain x y where xy: "0 \<le> x" "x < width hb - 1" "0 \<le> y" "y < h - 1" and mg: "m \<in> set (G x y)"
      by (auto simp: set_py_range)
    from cell[OF xy] obtain f
      where f: "getField hb \<lparr>x_coo = x, y_coo = y, isDouble = False\<rparr> = Inr f" by blast
    from mg f have "\<not> isOccupied f \<and> getFish f = FInt 1 \<and>
        m = Move_init (arrayToDoubleHex \<lparr>x_coo = x, y_coo = y, isDouble = False\<rparr>) None"
      by (auto simp: G_def getDoubleHex_def split: if_splits)
    with xy h f show ?R by blast
  next
    assume ?R
    then obtain x y h' f where r: "0 \<le> x" "x < width hb - 1" "height hb = Inr h'" "0 \<le> y" "y < h' - 1"
      "getField hb \<lparr>x_coo = x, y_coo = y, isDouble = False\<rparr> = Inr f"
      "\<not> isOccupied f" "getFish f = FInt 1"
      "m = Move_init (arrayToDoubleHex \<lparr>x_coo = x, y_coo = y, isDouble = False\<rparr>) None"
      by blast
    from r(3) h have "h' = h" by simp
    with r have "m \<in> set (G x y)" "x \<in> set (py_range (width hb - 1))" "y \<in> set (py_range (h - 1))"
      by (simp_all add: G_def getDoubleHex_def set_py_range)
    then show ?L by auto
  qed
  from all mem show ?thesis by blast
qed

text \<open>
  C5. For every game state built by \<^verbatim>\<open>GameState.__init__\<close> (its \<^verbatim>\<open>currentPieces\<close> are
  the current team's pieces on the board). With fewer than 4 pieces \<^verbatim>\<open>getPossibleMoves\<close>
  returns exactly the placement moves (origin absent) to the double-hex form of the
  cells with array \<open>x\<close> in \<open>[0, width - 1)\<close> and \<open>y\<close> in \<open>[0, height - 1)\<close> that are
  not occupied and carry exactly one fish. With 4 or more pieces it returns the moves of
  \<^verbatim>\<open>possibleMovesFrom\<close> over the pieces, in order; \<^verbatim>\<open>possibleMovesFrom\<close> succeeds on
  every piece, and every returned move has one of the pieces as its origin, so none is a
  placement.
\<close>

theorem C5_possible_moves_by_phase:
  assumes init: "GameState_init b t st fi lm = Inr gs"
  shows "getTeamsPenguins (board gs) (currentTeam gs) = Inr (currentPieces gs) \<and>
         (length (currentPieces gs) < 4 \<longrightarrow>
            (\<exists>ms. getPossibleMoves gs = Inr ms \<and>
               (\<forall>m. m \<in> set ms \<longleftrightarrow>
                  (\<exists>x y h f. 0 \<le> x \<and> x < width (hexFields (board gs)) - 1 \<and>
                     height (hexFields (board gs)) = Inr h \<and> 0 \<le> y \<and> y < h - 1 \<and>
                     getField (hexFields (board gs)) \<lparr>x_coo = x, y_coo = y, isDouble = False\<rparr>
                       = Inr f \<and>
                     \<not> isOccupied f \<and> getFish f = FInt 1 \<and>
                     m = Move_init (arrayToDoubleHex \<lparr>x_coo = x, y_coo = y, isDouble = False\<rparr>)
                           None)) \<and>
               (\<forall>m\<in>set ms. fromCoo m = None))) \<and>
         (4 \<le> length (currentPieces gs) \<longrightarrow>
            (\<exists>ms. getPossibleMoves gs = Inr ms \<and>
               (\<forall>p\<in>set (currentPieces gs). \<exists>mp. possibleMovesFrom (board gs) p = Inr mp) \<and>
               ms = concat (map (\<lambda>p. projr (possibleMovesFrom (board gs) p)) (currentPieces gs)) \<and>
               (\<forall>m\<in>set ms. \<exists>p\<in>set (currentPieces gs). fromCoo m = Some p)))"
proof -
  note f = GameState_init_fields[OF init]
  have pieces: "getTeamsPenguins (board gs) (currentTeam gs) = Inr (currentPieces gs)"
    by (simp add: f)
  have placement: "\<exists>ms. getPossibleMoves gs = Inr ms \<and>
               (\<forall>m. m \<in> set ms \<longleftrightarrow>
                  (\<exists>x y h f. 0 \<le> x \<and> x < width (hexFields (board gs)) - 1 \<and>
                     height (hexFields (board gs)) = Inr h \<and> 0 \<le> y \<and> y < h - 1 \<and>
                     getField (hexFields (board gs)) \<lparr>x_coo = x, y_coo = y, isDouble = False\<rparr>
                       = Inr f \<and>
                     \<not> isOccupied f \<and> getFish f = FInt 1 \<and>
                     m = Move_init (arrayToDoubleHex \<lparr>x_coo = x, y_coo = y, isDouble = False\<rparr>)
                           None)) \<and>
               (\<forall>m\<in>set ms. fromCoo m = None)"
    if few: "length (currentPieces gs) < 4"
  proof -
    from placement_moves[of "hexFields (board gs)", OF getTeamsPenguins_cells[OF pieces]]
    obtain ms where ms: "forE (py_range (width (hexFields (board gs)) - 1))
             (\<lambda>x. case height (hexFields (board gs)) of
                     Inl e \<Rightarrow> Inl e
                   | Inr h \<Rightarrow>
                       forE (py_range (h - 1))
                         (\<lambda>y. case getField (hexFields (board gs))
                                      \<lparr>x_coo = x, y_coo = y, isDouble = False\<rparr> of
                                 Inl e \<Rightarrow> Inl e
                               | Inr f \<Rightarrow>
                                   Inr (if \<not> isOccupied f \<and> getFish f = FInt 1
                                        then [Move_init
                                                (getDoubleHex
                                                   \<lparr>x_coo = x, y_coo = y, isDouble = False\<rparr>)
                                                None]
                                        else []))) = Inr ms"
      and chr: "\<forall>m. m \<in> set ms \<longleftrightarrow>
                  (\<exists>x y h f. 0 \<le> x \<and> x < width (hexFields (board gs)) - 1 \<and>
                     height (hexFields (board gs)) = Inr h \<and> 0 \<le> y \<and> y < h - 1 \<and>
                     getField (hexFields (board gs)) \<lparr>x_coo = x, y_coo = y, isDouble = False\<rparr>
                       = Inr f \<and>
                     \<not> isOccupied f \<and> getFish f = FInt 1 \<and>
                     m = Move_init (arrayToDoubleHex \<lparr>x_coo = x, y_coo = y, isDouble = False\<rparr>)
                           None)"
      by blast
    from ms few have "getPossibleMoves gs = Inr ms" by (simp add: getPossibleMoves_def)
    moreover from chr have "\<forall>m\<in>set ms. fromCoo m = None" by (auto simp: Move_init_def)
    ultimately show ?thesis using chr by blast
  qed
  have movement: "\<exists>ms. getPossibleMoves gs = Inr ms \<and>
               (\<forall>p\<in>set (currentPieces gs). \<exists>mp. possibleMovesFrom (board gs) p = Inr mp) \<and>
               ms = concat (map (\<lambda>p. projr (possibleMovesFrom (board gs) p)) (currentPieces gs)) \<and>
               (\<forall>m\<in>set ms. \<exists>p\<in>set (currentPieces gs). fromCoo m = Some p)"
    if many: "4 \<le> length (currentPieces gs)"
  proof -
    have valid: "isValid (hexFields (board gs)) p" if "p \<in> set (currentPieces gs)" for p
      using getTeamsPenguins_pieces[OF pieces that] isValid_arrayToDoubleHex by blast
    have each: "\<forall>p\<in>set (currentPieces gs). \<exists>mp. possibleMovesFrom (board gs) p = Inr mp"
      using valid by (simp add: possibleMovesFrom_valid)
    have res: "getPossibleMoves gs =
            Inr (concat (map (\<lambda>p. projr (possibleMovesFrom (board gs) p)) (currentPieces gs)))"
      using many movement_moves[of "currentPieces gs" "board gs", OF valid]
      by (simp add: getPossibleMoves_def)
    have orig: "\<exists>p\<in>set (currentPieces gs). fromCoo m = Some p"
      if "m \<in> set (concat (map (\<lambda>p. projr (possibleMovesFrom (board gs) p)) (currentPieces gs)))"
      for m
    proof -
      from that obtain p where p: "p \<in> set (currentPieces gs)"
        and m: "m \<in> set (projr (possibleMovesFrom (board gs) p))" by auto
      from each p obtain mp where mp: "possibleMovesFrom (board gs) p = Inr mp" by blast
      with m have "m \<in> set mp" by simp
      from possibleMovesFrom_origin[OF mp this] p show ?thesis by blast
    qed
    from each res orig show ?thesis by blast
  qed
  from pieces placement movement show ?thesis by blast
qed

theorem C5_possible_moves_by_phase_witness:
  "GameState_init \<lparr>hexFields = \<lparr>gameField = [[\<lparr>ident = 0, field = FInt 1\<rparr>, \<lparr>ident = 1, field = FInt 1\<rparr>],
                                    [\<lparr>ident = 2, field = FInt 1\<rparr>, \<lparr>ident = 3, field = FInt 1\<rparr>]]\<rparr>\<rparr> 0 ONE \<lparr>fishesOne = 0, fishesTwo = 0\<rparr> None
     = Inr \<lparr>startTeam = ONE, board = \<lparr>hexFields = \<lparr>gameField = [[\<lparr>ident = 0, field = FInt 1\<rparr>, \<lparr>ident = 1, field = FInt 1\<rparr>],
                                    [\<lparr>ident = 2, field = FInt 1\<rparr>, \<lparr>ident = 3, field = FInt 1\<rparr>]]\<rparr>\<rparr>,
        turn = 0, round_no = 0, currentTeam = ONE, otherTeam = TWO, lastMove = None,
        fishes = \<lparr>fishesOne = 0, fishesTwo = 0\<rparr>, currentPieces = []\<rparr> \<and>
   GameState_init \<lparr>hexFields = \<lparr>gameField = [[\<lparr>ident = 0, field = FTeam ONE\<rparr>, \<lparr>ident = 1, field = FTeam ONE\<rparr>],
                                    [\<lparr>ident = 2, field = FTeam ONE\<rparr>, \<lparr>ident = 3, field = FTeam ONE\<rparr>]]\<rparr>\<rparr> 0 ONE \<lparr>fishesOne = 0, fishesTwo = 0\<rparr> None
     = Inr \<lparr>startTeam = ONE, board = \<lparr>hexFields = \<lparr>gameField = [[\<lparr>ident = 0, field = FTeam ONE\<rparr>, \<lparr>ident = 1, field = FTeam ONE\<rparr>],
                                    [\<lparr>ident = 2, field = FTeam ONE\<rparr>, \<lparr>ident = 3, field = FTeam ONE\<rparr>]]\<rparr>\<rparr>,
        turn = 0, round_no = 0, currentTeam = ONE, otherTeam = TWO, lastMove = None,
        fishes = \<lparr>fishesOne = 0, fishesTwo = 0\<rparr>, currentPieces = [\<lparr>x_coo = 0, y_coo = 0, isDouble = True\<rparr>, \<lparr>x_coo = 1, y_coo = 1, isDouble = True\<rparr>,
            \<lparr>x_coo = 2, y_coo = 0, isDouble = True\<rparr>, \<lparr>x_coo = 3, y_coo = 1, isDouble = True\<rparr>]\<rparr> \<and>
   (\<exists>ms. getPossibleMoves
            \<lparr>startTeam = ONE, board = \<lparr>hexFields = \<lparr>gameField = [[\<lparr>ident = 0, field = FInt 1\<rparr>, \<lparr>ident = 1, field = FInt 1\<rparr>],
                                    [\<lparr>ident = 2, field = FInt 1\<rparr>, \<lparr>ident = 3, field = FInt 1\<rparr>]]\<rparr>\<rparr>,
        turn = 0, round_no = 0, currentTeam = ONE, otherTeam = TWO, lastMove = None,
        fishes = \<lparr>fishesOne = 0, fishesTwo = 0\<rparr>, currentPieces = []\<rparr> = Inr ms \<and>
          list_all (\<lambda>m. fromCoo m = None) ms) \<and>
   (\<exists>ms. getPossibleMoves
            \<lparr>startTeam = ONE, board = \<lparr>hexFields = \<lparr>gameField = [[\<lparr>ident = 0, field = FTeam ONE\<rparr>, \<lparr>ident = 1, field = FTeam ONE\<rparr>],
                                    [\<lparr>ident = 2, field = FTeam ONE\<rparr>, \<lparr>ident = 3, field = FTeam ONE\<rparr>]]\<rparr>\<rparr>,
        turn = 0, round_no = 0, currentTeam = ONE, otherTeam = TWO, lastMove = None,
        fishes = \<lparr>fishesOne = 0, fishesTwo = 0\<rparr>, currentPieces = [\<lparr>x_coo = 0, y_coo = 0, isDouble = True\<rparr>, \<lparr>x_coo = 1, y_coo = 1, isDouble = True\<rparr>,
            \<lparr>x_coo = 2, y_coo = 0, isDouble = True\<rparr>, \<lparr>x_coo = 3, y_coo = 1, isDouble = True\<rparr>]\<rparr> = Inr ms \<and>
          list_all (\<lambda>m. fromCoo m \<noteq> None) ms)"
proof -
  have h1: "GameState_init \<lparr>hexFields = \<lparr>gameField = [[\<lparr>ident = 0, field = FInt 1\<rparr>, \<lparr>ident = 1, field = FInt 1\<rparr>],
                                    [\<lparr>ident = 2, field = FInt 1\<rparr>, \<lparr>ident = 3, field = FInt 1\<rparr>]]\<rparr>\<rparr> 0 ONE \<lparr>fishesOne = 0, fishesTwo = 0\<rparr> None
     = Inr \<lparr>startTeam = ONE, board = \<lparr>hexFields = \<lparr>gameField = [[\<lparr>ident = 0, field = FInt 1\<rparr>, \<lparr>ident = 1, field = FInt 1\<rparr>],
                                    [\<lparr>ident = 2, field = FInt 1\<rparr>, \<lparr>ident = 3, field = FInt 1\<rparr>]]\<rparr>\<rparr>,
        turn = 0, round_no = 0, currentTeam = ONE, otherTeam = TWO, lastMove = None,
        fishes = \<lparr>fishesOne = 0, fishesTwo = 0\<rparr>, currentPieces = []\<rparr>"
    by code_simp
  have h2: "GameState_init \<lparr>hexFields = \<lparr>gameField = [[\<lparr>ident = 0, field = FTeam ONE\<rparr>, \<lparr>ident = 1, field = FTeam ONE\<rparr>],
                                    [\<lparr>ident = 2, field = FTeam ONE\<rparr>, \<lparr>ident = 3, field = FTeam ONE\<rparr>]]\<rparr>\<rparr> 0 ONE \<lparr>fishesOne = 0, fishesTwo = 0\<rparr> None
     = Inr \<lparr>startTeam = ONE, board = \<lparr>hexFields = \<lparr>gameField = [[\<lparr>ident = 0, field = FTeam ONE\<rparr>, \<lparr>ident = 1, field = FTeam ONE\<rparr>],
                                    [\<lparr>ident = 2, field = FTeam ONE\<rparr>, \<lparr>ident = 3, field = FTeam ONE\<rparr>]]\<rparr>\<rparr>,
        turn = 0, round_no = 0, currentTeam = ONE, otherTeam = TWO, lastMove = None,
        fishes = \<lparr>fishesOne = 0, fishesTwo = 0\<rparr>, currentPieces = [\<lparr>x_coo = 0, y_coo = 0, isDouble = True\<rparr>, \<lparr>x_coo = 1, y_coo = 1, isDouble = True\<rparr>,
            \<lparr>x_coo = 2, y_coo = 0, isDouble = True\<rparr>, \<lparr>x_coo = 3, y_coo = 1, isDouble = True\<rparr>]\<rparr>"
    by code_simp
  have p1: "\<exists>ms. getPossibleMoves
            \<lparr>startTeam = ONE, board = \<lparr>hexFields = \<lparr>gameField = [[\<lparr>ident = 0, field = FInt 1\<rparr>, \<lparr>ident = 1, field = FInt 1\<rparr>],
                                    [\<lparr>ident = 2, field = FInt 1\<rparr>, \<lparr>ident = 3, field = FInt 1\<rparr>]]\<rparr>\<rparr>,
        turn = 0, round_no = 0, currentTeam = ONE, otherTeam = TWO, lastMove = None,
        fishes = \<lparr>fishesOne = 0, fishesTwo = 0\<rparr>, currentPieces = []\<rparr> = Inr ms \<and>
          list_all (\<lambda>m. fromCoo m = None) ms"
    using C5_possible_moves_by_phase[OF h1] by (auto simp: list_all_iff)
  have p2: "\<exists>ms. getPossibleMoves
            \<lparr>startTeam = ONE, board = \<lparr>hexFields = \<lparr>gameField = [[\<lparr>ident = 0, field = FTeam ONE\<rparr>, \<lparr>ident = 1, field = FTeam ONE\<rparr>],
                                    [\<lparr>ident = 2, field = FTeam ONE\<rparr>, \<lparr>ident = 3, field = FTeam ONE\<rparr>]]\<rparr>\<rparr>,
        turn = 0, round_no = 0, currentTeam = ONE, otherTeam = TWO, lastMove = None,
        fishes = \<lparr>fishesOne = 0, fishesTwo = 0\<rparr>, currentPieces = [\<lparr>x_coo = 0, y_coo = 0, isDouble = True\<rparr>, \<lparr>x_coo = 1, y_coo = 1, isDouble = True\<rparr>,
            \<lparr>x_coo = 2, y_coo = 0, isDouble = True\<rparr>, \<lparr>x_coo = 3, y_coo = 1, isDouble = True\<rparr>]\<rparr> = Inr ms \<and>
          list_all (\<lambda>m. fromCoo m \<noteq> None) ms"
  proof -
    from C5_possible_moves_by_phase[OF h2]
    obtain ms where "getPossibleMoves
            \<lparr>startTeam = ONE, board = \<lparr>hexFields = \<lparr>gameField = [[\<lparr>ident = 0, field = FTeam ONE\<rparr>, \<lparr>ident = 1, field = FTeam ONE\<rparr>],
                                    [\<lparr>ident = 2, field = FTeam ONE\<rparr>, \<lparr>ident = 3, field = FTeam ONE\<rparr>]]\<rparr>\<rparr>,
        turn = 0, round_no = 0, currentTeam = ONE, otherTeam = TWO, lastMove = None,
        fishes = \<lparr>fishesOne = 0, fishesTwo = 0\<rparr>, currentPieces = [\<lparr>x_coo = 0, y_coo = 0, isDouble = True\<rparr>, \<lparr>x_coo = 1, y_coo = 1, isDouble = True\<rparr>,
            \<lparr>x_coo = 2, y_coo = 0, isDouble = True\<rparr>, \<lparr>x_coo = 3, y_coo = 1, isDouble = True\<rparr>]\<rparr> = Inr ms"
      and "\<forall>m\<in>set ms. \<exists>p\<in>set [\<lparr>x_coo = 0, y_coo = 0, isDouble = True\<rparr>, \<lparr>x_coo = 1, y_coo = 1, isDouble = True\<rparr>,
            \<lparr>x_coo = 2, y_coo = 0, isDouble = True\<rparr>, \<lparr>x_coo = 3, y_coo = 1, isDouble = True\<rparr>]. fromCoo m = Some p"
      by auto
    then show ?thesis by (fastforce simp: list_all_iff)
  qed
  from h1 h2 p1 p2 show ?thesis by blast
qed

end
